theory Spec2Isabelle
  imports Complex_Main
begin

section \<open>Python values: exceptions, subscripts, \<open>str\<close>\<close>

text \<open>
  The converters are Python. An exception is a value of type \<open>error\<close>; a function
  that can raise returns \<open>error + 'a\<close>, with \<open>Inl\<close> the exception. A Python value that
  can be \<open>None\<close> is an \<open>option\<close>. Floating-point numbers are modelled as \<open>real\<close>:
  every statement below about sizes and lengths is a statement of exact arithmetic.
\<close>

datatype error = RuntimeError string | IndexError | TypeError | AttributeError | ValueError

definition raise_bind :: "error + 'a \<Rightarrow> ('a \<Rightarrow> error + 'b) \<Rightarrow> error + 'b" where
  "raise_bind r f = (case r of Inl e \<Rightarrow> Inl e | Inr x \<Rightarrow> f x)"

text \<open>
  \<open>xs[i]\<close> for a constant index \<open>i \<ge> 0\<close>: \<open>None[i]\<close> raises TypeError, an index past
  the end raises IndexError.
\<close>

definition subscript :: "real list option \<Rightarrow> nat \<Rightarrow> error + real" where
  "subscript xs i =
     (case xs of
        None \<Rightarrow> Inl TypeError
      | Some l \<Rightarrow> if i < length l then Inr (l ! i) else Inl IndexError)"

text \<open>\<open>str(n)\<close> of a Python integer: decimal digits, a leading minus sign below zero.\<close>

definition digit_char :: "nat \<Rightarrow> char" where
  "digit_char d = ''0123456789'' ! d"

fun str_nat :: "nat \<Rightarrow> string" where
  "str_nat n =
     (if n < 10 then [digit_char n] else str_nat (n div 10) @ [digit_char (n mod 10)])"

declare str_nat.simps [simp del]

definition str :: "int \<Rightarrow> string" where
  "str i = (if i < 0 then CHR ''-'' # str_nat (nat (- i)) else str_nat (nat i))"

text \<open>The f-string rendering of a value that is a string or \<open>None\<close>.\<close>

definition format_opt :: "string option \<Rightarrow> string" where
  "format_opt t = (case t of None \<Rightarrow> ''None'' | Some s \<Rightarrow> s)"

section \<open>Data model\<close>

type_synonym vec2 = "real \<times> real"
type_synonym vec3 = "real \<times> real \<times> real"

text \<open>\<open>Vector3d * k\<close>, \<open>Vector3d / k\<close>, \<open>Vector2d / k\<close> and \<open>Vector3d.distance\<close>
  of the maths library the converters import.\<close>

definition vec3_scale :: "vec3 \<Rightarrow> real \<Rightarrow> vec3" where
  "vec3_scale v k = (case v of (x, y, z) \<Rightarrow> (x * k, y * k, z * k))"

definition vec3_div :: "vec3 \<Rightarrow> real \<Rightarrow> vec3" where
  "vec3_div v k = (case v of (x, y, z) \<Rightarrow> (x / k, y / k, z / k))"

definition vec2_div :: "vec2 \<Rightarrow> real \<Rightarrow> vec2" where
  "vec2_div v k = (case v of (x, y) \<Rightarrow> (x / k, y / k))"

definition distance :: "vec3 \<Rightarrow> vec3 \<Rightarrow> real" where
  "distance v1 v2 =
     (case v1 of (x1, y1, z1) \<Rightarrow> case v2 of (x2, y2, z2) \<Rightarrow>
        sqrt ((x1 - x2)\<^sup>2 + (y1 - y2)\<^sup>2 + (z1 - z2)\<^sup>2))"

text \<open>
  An MJCF geom element. Every attribute of an element is \<open>None\<close> until it is set;
  \<open>size\<close> holds up to three numbers and \<open>fromto\<close> up to six.
\<close>

record mjcf_geom =
  geom_name :: "string option"
  geom_type :: "string option"
  geom_size :: "real list option"
  geom_fromto :: "real list option"
  geom_pos :: "real list option"
  geom_euler :: "real list option"
  geom_group :: "int option"

text \<open>The SDFormat geometry: a type tag and one optional slot for each shape.\<close>

datatype GeometryType =
  EMPTY | BOX | CYLINDER | PLANE | SPHERE | MESH | HEIGHTMAP | CAPSULE | ELLIPSOID | POLYLINE

record sdf_box =
  box_size :: vec3

record sdf_capsule =
  capsule_radius :: real
  capsule_length :: real

record sdf_cylinder =
  cylinder_radius :: real
  cylinder_length :: real

record sdf_ellipsoid =
  ellipsoid_radii :: vec3

record sdf_sphere =
  sphere_radius :: real

record sdf_plane =
  plane_size :: vec2

record sdf_mesh =
  mesh_uri :: string

record sdf_geometry =
  gtype :: GeometryType
  box_shape :: "sdf_box option"
  capsule_shape :: "sdf_capsule option"
  cylinder_shape :: "sdf_cylinder option"
  ellipsoid_shape :: "sdf_ellipsoid option"
  plane_shape :: "sdf_plane option"
  sphere_shape :: "sdf_sphere option"
  mesh_shape :: "sdf_mesh option"

text \<open>\<open>sdf.Geometry()\<close>: no shape set.\<close>

definition Geometry :: sdf_geometry where
  "Geometry =
     \<lparr>gtype = EMPTY, box_shape = None, capsule_shape = None, cylinder_shape = None,
      ellipsoid_shape = None, plane_shape = None, sphere_shape = None, mesh_shape = None\<rparr>"

record sdf_visual =
  visual_name :: string
  visual_geometry :: sdf_geometry

record sdf_collision =
  collision_name :: string
  collision_geometry :: sdf_geometry

text \<open>The module-level counters of the MJCF to SDFormat geometry converter.\<close>

record module_state =
  VISUAL_NUMBER :: int
  COLLISION_NUMBER :: int

text \<open>The state when the module has just been loaded.\<close>

definition module_loaded :: module_state where
  "module_loaded = \<lparr>VISUAL_NUMBER = 0, COLLISION_NUMBER = 0\<rparr>"

section \<open>MJCF to SDFormat: geometry\<close>

text \<open>
  Modelled from the spec: \<open>su.list_to_vec3d\<close> (the utility module \<open>sdf_utils\<close> is not
  among the sources). It builds the 3-vector of the first three entries of a list, so
  it raises on \<open>None\<close> and on a shorter list.
\<close>

definition list_to_vec3d :: "real list option \<Rightarrow> error + vec3" where
  "list_to_vec3d xs =
     raise_bind (subscript xs 0) (\<lambda>x.
     raise_bind (subscript xs 1) (\<lambda>y.
     raise_bind (subscript xs 2) (\<lambda>z. Inr (x, y, z))))"

text \<open>The two endpoints of a \<open>fromto\<close> segment and their distance (lines 51-53, 63-65).\<close>

definition fromto_length :: "real list option \<Rightarrow> error + real" where
  "fromto_length ft =
     raise_bind (subscript ft 0) (\<lambda>a0.
     raise_bind (subscript ft 1) (\<lambda>a1.
     raise_bind (subscript ft 2) (\<lambda>a2.
     raise_bind (subscript ft 3) (\<lambda>a3.
     raise_bind (subscript ft 4) (\<lambda>a4.
     raise_bind (subscript ft 5) (\<lambda>a5.
       Inr (distance (a0, a1, a2) (a3, a4, a5))))))))"

text \<open>
  \<open>mjcf_geom_to_sdf\<close>. The result is a Python value, so it is an \<open>option\<close>; every
  \<open>return\<close> of the function gives \<open>Some\<close>.
\<close>

definition mjcf_geom_to_sdf :: "mjcf_geom \<Rightarrow> error + sdf_geometry option" where
  "mjcf_geom_to_sdf geom =
     (let sdf_geometry = Geometry in
      if geom_type geom = Some ''box'' then
        raise_bind (list_to_vec3d (geom_size geom)) (\<lambda>v.
          Inr (Some (sdf_geometry\<lparr>box_shape := Some \<lparr>box_size = vec3_scale v 2\<rparr>,
                                  gtype := BOX\<rparr>)))
      else if geom_type geom = Some ''capsule'' then
        raise_bind (subscript (geom_size geom) 0) (\<lambda>r.
        raise_bind
          (if geom_fromto geom = None
           then raise_bind (subscript (geom_size geom) 1) (\<lambda>h. Inr (h * 2))
           else fromto_length (geom_fromto geom)) (\<lambda>len.
          Inr (Some (sdf_geometry\<lparr>capsule_shape :=
                                    Some \<lparr>capsule_radius = r, capsule_length = len\<rparr>,
                                  gtype := CAPSULE\<rparr>))))
      else if geom_type geom = Some ''cylinder'' then
        raise_bind (subscript (geom_size geom) 0) (\<lambda>r.
        raise_bind
          (if geom_fromto geom = None
           then raise_bind (subscript (geom_size geom) 1) (\<lambda>h. Inr (h * 2))
           else fromto_length (geom_fromto geom)) (\<lambda>len.
          Inr (Some (sdf_geometry\<lparr>cylinder_shape :=
                                    Some \<lparr>cylinder_radius = r, cylinder_length = len\<rparr>,
                                  gtype := CYLINDER\<rparr>))))
      else if geom_type geom = Some ''ellipsoid'' then
        raise_bind (list_to_vec3d (geom_size geom)) (\<lambda>v.
          Inr (Some (sdf_geometry\<lparr>ellipsoid_shape := Some \<lparr>ellipsoid_radii = v\<rparr>,
                                  gtype := ELLIPSOID\<rparr>)))
      else if geom_type geom = Some ''sphere'' then
        raise_bind (subscript (geom_size geom) 0) (\<lambda>r.
          Inr (Some (sdf_geometry\<lparr>sphere_shape := Some \<lparr>sphere_radius = r\<rparr>,
                                  gtype := SPHERE\<rparr>)))
      else if geom_type geom = Some ''plane'' then
        raise_bind (subscript (geom_size geom) 0) (\<lambda>a.
        raise_bind (subscript (geom_size geom) 1) (\<lambda>b.
          Inr (Some (sdf_geometry\<lparr>plane_shape := Some \<lparr>plane_size = (a * 2, b * 2)\<rparr>,
                                  gtype := PLANE\<rparr>))))
      else
        Inl (RuntimeError (''Encountered unsupported shape type '' @ format_opt (geom_type geom))))"

text \<open>
  \<open>mjcf_visual_to_sdf\<close> and \<open>mjcf_collision_to_sdf\<close> read and write the module's
  counters, so they take the module state and return it; an exception leaves the
  state as it was when the exception was raised.
\<close>

definition mjcf_visual_to_sdf ::
  "mjcf_geom \<Rightarrow> module_state \<Rightarrow> (error + sdf_visual option) \<times> module_state" where
  "mjcf_visual_to_sdf geom st =
     (let (nm, st') =
            (case geom_name geom of
               Some n \<Rightarrow> (''visual_'' @ n, st)
             | None \<Rightarrow> (''unnamed_visual_'' @ str (VISUAL_NUMBER st),
                        st\<lparr>VISUAL_NUMBER := VISUAL_NUMBER st + 1\<rparr>))
      in case mjcf_geom_to_sdf geom of
           Inl e \<Rightarrow> (Inl e, st')
         | Inr (Some sdf_geometry) \<Rightarrow>
             (Inr (Some \<lparr>visual_name = nm, visual_geometry = sdf_geometry\<rparr>), st')
         | Inr None \<Rightarrow> (Inr None, st'))"

definition mjcf_collision_to_sdf ::
  "mjcf_geom \<Rightarrow> module_state \<Rightarrow> (error + sdf_collision option) \<times> module_state" where
  "mjcf_collision_to_sdf geom st =
     (let (nm, st') =
            (case geom_name geom of
               Some n \<Rightarrow> (''collision_'' @ n, st)
             | None \<Rightarrow> (''unnamed_collision_'' @ str (COLLISION_NUMBER st),
                        st\<lparr>COLLISION_NUMBER := COLLISION_NUMBER st + 1\<rparr>))
      in case mjcf_geom_to_sdf geom of
           Inl e \<Rightarrow> (Inl e, st')
         | Inr (Some sdf_geometry) \<Rightarrow>
             (Inr (Some \<lparr>collision_name = nm, collision_geometry = sdf_geometry\<rparr>), st')
         | Inr None \<Rightarrow> (Inr None, st'))"

section \<open>SDFormat to MJCF: geometry\<close>

text \<open>
  A resolved pose: a position and a rotation. The rotation is only handed to
  \<open>su.quat_to_euler_list\<close>, which is not among the sources and is a parameter of
  \<open>add_geometry\<close> below.
\<close>

record 'q pose3d =
  pose_pos :: vec3
  pose_rot :: 'q

text \<open>
  Modelled from the spec: \<open>su.vec3d_to_list\<close> and \<open>su.vec2d_to_list\<close> (utility module
  \<open>sdf_utils\<close>, not among the sources): the list of the components of a vector.
\<close>

definition vec3d_to_list :: "vec3 \<Rightarrow> real list" where
  "vec3d_to_list v = (case v of (x, y, z) \<Rightarrow> [x, y, z])"

definition vec2d_to_list :: "vec2 \<Rightarrow> real list" where
  "vec2d_to_list v = (case v of (x, y) \<Rightarrow> [x, y])"

text \<open>The rendering of \<open>sdf_geom.type()\<close> in the message of the last branch.\<close>

fun format_GeometryType :: "GeometryType \<Rightarrow> string" where
  "format_GeometryType EMPTY = ''GeometryType.EMPTY''"
| "format_GeometryType BOX = ''GeometryType.BOX''"
| "format_GeometryType CYLINDER = ''GeometryType.CYLINDER''"
| "format_GeometryType PLANE = ''GeometryType.PLANE''"
| "format_GeometryType SPHERE = ''GeometryType.SPHERE''"
| "format_GeometryType MESH = ''GeometryType.MESH''"
| "format_GeometryType HEIGHTMAP = ''GeometryType.HEIGHTMAP''"
| "format_GeometryType CAPSULE = ''GeometryType.CAPSULE''"
| "format_GeometryType ELLIPSOID = ''GeometryType.ELLIPSOID''"
| "format_GeometryType POLYLINE = ''GeometryType.POLYLINE''"

text \<open>
  The MJCF body that receives the geoms: the part of it that \<open>add_geometry\<close> touches is
  the sequence of geoms added to it, in the order of the \<open>body.add\<close> calls, and the
  geom names already in use in the MJCF model that the body belongs to.
\<close>

record mjcf_body =
  body_geoms :: "mjcf_geom list"
  body_namescope :: "string list"

text \<open>
  \<open>body.add("geom", name=name, pos=pos, euler=euler)\<close> of the MJCF library. An empty
  name is stored as \<open>None\<close>. A name that contains a slash, or that a geom of the model
  already has, is rejected with ValueError, and the body is left as it was. Otherwise
  the new geom, with no other attribute set, becomes the last geom of the body and
  its name is in use from then on.
\<close>

definition name_accepted :: "mjcf_body \<Rightarrow> string \<Rightarrow> bool" where
  "name_accepted body name =
     (name = [] \<or> (CHR ''/'' \<notin> set name \<and> name \<notin> set (body_namescope body)))"

definition body_add ::
  "mjcf_body \<Rightarrow> string \<Rightarrow> real list \<Rightarrow> real list \<Rightarrow> error + mjcf_geom \<times> mjcf_body" where
  "body_add body name pos euler =
     (if name_accepted body name then
        (let geom = \<lparr>geom_name = (if name = [] then None else Some name),
                     geom_type = None, geom_size = None, geom_fromto = None,
                     geom_pos = Some pos, geom_euler = Some euler, geom_group = None\<rparr>
         in Inr (geom,
                 body\<lparr>body_geoms := body_geoms body @ [geom],
                      body_namescope := (if name = [] then body_namescope body
                                         else body_namescope body @ [name])\<rparr>))
      else Inl ValueError)"

definition COLLISION_GEOM_GROUP :: int where
  "COLLISION_GEOM_GROUP = 3"

definition VISUAL_GEOM_GROUP :: int where
  "VISUAL_GEOM_GROUP = 0"

text \<open>
  \<open>add_geometry\<close>. The function returns \<open>None\<close> for a \<open>None\<close> geometry. Otherwise the new
  geom is created inside the body by \<open>body.add\<close>, which can raise, and then filled in
  place, so the body returned holds the geom as the function left it: with its type
  and size in the branches that return, without them in the two branches that raise.
\<close>

definition add_geometry ::
  "('q \<Rightarrow> real list) \<Rightarrow> mjcf_body \<Rightarrow> string \<Rightarrow> 'q pose3d \<Rightarrow> sdf_geometry option
     \<Rightarrow> (error + mjcf_geom option) \<times> mjcf_body" where
  "add_geometry quat_to_euler_list body name pose sdf_geom =
     (case sdf_geom of
        None \<Rightarrow> (Inr None, body)
      | Some g \<Rightarrow>
        (case body_add body name (vec3d_to_list (pose_pos pose))
                (quat_to_euler_list (pose_rot pose)) of
           Inl e \<Rightarrow> (Inl e, body)
         | Inr (geom, body1) \<Rightarrow>
         (let returns = (\<lambda>geom'. (Inr (Some geom'),
                          body1\<lparr>body_geoms := butlast (body_geoms body1) @ [geom']\<rparr>));
              raises = (\<lambda>e. (Inl e, body1))
          in case box_shape g of
            Some box \<Rightarrow>
              returns (geom\<lparr>geom_type := Some ''box'',
                            geom_size := Some (vec3d_to_list (vec3_div (box_size box) 2))\<rparr>)
          | None \<Rightarrow>
          (case capsule_shape g of
            Some capsule \<Rightarrow>
              returns (geom\<lparr>geom_type := Some ''capsule'',
                            geom_size := Some [capsule_radius capsule,
                                               capsule_length capsule / 2]\<rparr>)
          | None \<Rightarrow>
          (case cylinder_shape g of
            Some cylinder \<Rightarrow>
              returns (geom\<lparr>geom_type := Some ''cylinder'',
                            geom_size := Some [cylinder_radius cylinder,
                                               cylinder_length cylinder / 2]\<rparr>)
          | None \<Rightarrow>
          (case ellipsoid_shape g of
            Some ellipsoid \<Rightarrow>
              returns (geom\<lparr>geom_type := Some ''ellipsoid'',
                            geom_size := Some (vec3d_to_list (ellipsoid_radii ellipsoid))\<rparr>)
          | None \<Rightarrow>
          (case plane_shape g of
            Some plane \<Rightarrow>
              returns (geom\<lparr>geom_type := Some ''plane'',
                            geom_size := Some (vec2d_to_list (vec2_div (plane_size plane) 2)
                                               @ [0])\<rparr>)
          | None \<Rightarrow>
          (case sphere_shape g of
            Some sphere \<Rightarrow>
              returns (geom\<lparr>geom_type := Some ''sphere'',
                            geom_size := Some [sphere_radius sphere]\<rparr>)
          | None \<Rightarrow>
          (case mesh_shape g of
            Some mesh \<Rightarrow> raises (RuntimeError ''Meshes are not yet supported'')
          | None \<Rightarrow>
              raises (RuntimeError (''Encountered unsupported shape type ''
                                     @ format_GeometryType (gtype g))))))))))))"

text \<open>
  What \<open>add_collision\<close> reads of an SDFormat collision: its semantic pose, its name and
  its geometry, which \<open>add_geometry\<close> accepts as \<open>None\<close>.
\<close>

record 'sp sdf_collision_element =
  col_semantic_pose :: 'sp
  col_name :: string
  col_geometry :: "sdf_geometry option"

text \<open>
  \<open>add_collision\<close>. The pose resolver is a parameter and can raise. The assignment
  \<open>geom.group = COLLISION_GEOM_GROUP\<close> writes to the geom that \<open>add_geometry\<close> left as
  the last one of the body; on \<open>None\<close> it raises AttributeError.
\<close>

definition add_collision ::
  "('q \<Rightarrow> real list) \<Rightarrow> mjcf_body \<Rightarrow> 'sp sdf_collision_element
     \<Rightarrow> ('sp \<Rightarrow> error + 'q pose3d) \<Rightarrow> (error + mjcf_geom option) \<times> mjcf_body" where
  "add_collision quat_to_euler_list body col pose_resolver =
     (let sem_pose = col_semantic_pose col in
      case pose_resolver sem_pose of
        Inl e \<Rightarrow> (Inl e, body)
      | Inr pose \<Rightarrow>
         (case add_geometry quat_to_euler_list body (col_name col) pose (col_geometry col) of
            (Inl e, body') \<Rightarrow> (Inl e, body')
          | (Inr None, body') \<Rightarrow> (Inl AttributeError, body')
          | (Inr (Some geom), body') \<Rightarrow>
              (let geom' = geom\<lparr>geom_group := Some COLLISION_GEOM_GROUP\<rparr>
               in (Inr (Some geom'),
                   body'\<lparr>body_geoms := butlast (body_geoms body') @ [geom']\<rparr>))))"

section \<open>MJCF to SDFormat: the world and the body tree\<close>

text \<open>
  The MJCF elements that \<open>mjcf_worldbody_to_sdf\<close> reads. Lights, cameras and joints are
  only handed to converters that are not among the sources, so their type \<open>'e\<close> is left
  open. A body has a name, geoms, joints, an optional free joint, cameras, lights and
  child bodies; the world body is a body too.
\<close>

datatype 'e body_tree =
  Body (body_name: "string option") (body_geom: "mjcf_geom list") (body_joint: "'e list")
       (body_freejoint: "'e option") (body_camera: "'e list") (body_light: "'e list")
       (body_body: "'e body_tree list")

record mjcf_flag =
  flag_gravity :: "string option"

record mjcf_option =
  option_flag :: mjcf_flag
  option_gravity :: "real list option"
  option_magnetic :: "real list option"
  option_wind :: "real list option"

record 'e mjcf_root =
  root_model :: "string option"
  root_worldbody :: "'e body_tree"
  root_option :: "mjcf_option option"

text \<open>
  The SDFormat side. A link, a model and the world are library objects that the
  converter fills through \<open>add_sensor\<close>, \<open>add_joint\<close>, \<open>add_link\<close>, \<open>add_light\<close>,
  \<open>add_model\<close> and \<open>add_plugin\<close>; each is modelled by the sequence of the elements handed
  to it, in call order. What \<open>mjcf_body_to_sdf\<close> puts in a link, and what a light, a
  sensor and a joint are, is left open (\<open>'lk\<close>, \<open>'lt\<close>, \<open>'sn\<close>, \<open>'jt\<close>).
\<close>

record ('lk, 'sn) sdf_link =
  link_body :: 'lk
  link_sensors :: "'sn list"

record ('lk, 'sn, 'jt) sdf_model =
  model_name :: string
  static :: bool
  model_links :: "('lk, 'sn) sdf_link list"
  model_joints :: "'jt list"

text \<open>\<open>sdf.Model()\<close>: empty name, not static, no link, no joint.\<close>

definition Model :: "('lk, 'sn, 'jt) sdf_model" where
  "Model = \<lparr>model_name = [], static = False, model_links = [], model_joints = []\<rparr>"

record ('lt, 'lk, 'sn, 'jt) sdf_world =
  world_lights :: "'lt list"
  world_models :: "('lk, 'sn, 'jt) sdf_model list"
  world_plugins :: "(string \<times> string) list"
  world_gravity :: vec3
  world_magnetic_field :: vec3
  world_wind_linear_velocity :: vec3

text \<open>
  The converters of the other modules (\<open>joint\<close>, \<open>light\<close>, \<open>link\<close>, \<open>sensor\<close>, the
  modifiers and \<open>su.find_unique_name\<close>), none of them among the sources: they are
  parameters of the walk, taken to return. The physics and modifiers arguments that
  the walk only passes on are part of these parameters.
\<close>

record ('e, 'lt, 'lk, 'sn, 'jt) converters =
  apply_modifiers_to_element :: "'e \<Rightarrow> 'e"
  mjcf_light_to_sdf :: "'e \<Rightarrow> 'lt"
  mjcf_body_to_sdf :: "'e body_tree \<Rightarrow> string option \<Rightarrow> ('lk, 'sn) sdf_link"
  find_unique_name :: "'e body_tree \<Rightarrow> string \<Rightarrow> string \<Rightarrow> string"
  mjcf_camera_sensor_to_sdf :: "'e \<Rightarrow> 'sn option"
  mjcf_joint_to_sdf :: "'e \<Rightarrow> string option \<Rightarrow> string option \<Rightarrow> 'jt option"
  add_fixed_joint :: "string option \<Rightarrow> string option \<Rightarrow> 'jt"

text \<open>The camera loop (lines 60-63 and 91-94).\<close>

definition add_sensors ::
  "('e, 'lt, 'lk, 'sn, 'jt) converters \<Rightarrow> 'e list \<Rightarrow> ('lk, 'sn) sdf_link \<Rightarrow> ('lk, 'sn) sdf_link" where
  "add_sensors c cameras link =
     foldl (\<lambda>link camera.
              case mjcf_camera_sensor_to_sdf c camera of
                Some sensor \<Rightarrow> link\<lparr>link_sensors := link_sensors link @ [sensor]\<rparr>
              | None \<Rightarrow> link) link cameras"

text \<open>The joint loop (lines 96-103).\<close>

definition add_joints ::
  "('e, 'lt, 'lk, 'sn, 'jt) converters \<Rightarrow> 'e list \<Rightarrow> string option \<Rightarrow> string option
     \<Rightarrow> ('lk, 'sn, 'jt) sdf_model \<Rightarrow> ('lk, 'sn, 'jt) sdf_model" where
  "add_joints c joints body_parent_name name model =
     foldl (\<lambda>model joint.
              case mjcf_joint_to_sdf c (apply_modifiers_to_element c joint) body_parent_name name of
                Some joint_sdf \<Rightarrow> model\<lparr>model_joints := model_joints model @ [joint_sdf]\<rparr>
              | None \<Rightarrow> model) model joints"

text \<open>\<open>iterate_bodies\<close> (lines 83-111): the loop over the bodies of one level, with the
  recursion into the children of each body before its next sibling.\<close>

fun iterate_bodies ::
  "('e, 'lt, 'lk, 'sn, 'jt) converters \<Rightarrow> 'e body_tree list \<Rightarrow> ('lk, 'sn, 'jt) sdf_model
     \<Rightarrow> string option \<Rightarrow> ('lk, 'sn, 'jt) sdf_model" where
  "iterate_bodies c [] model body_parent_name = model"
| "iterate_bodies c (Body name geom joint freejoint camera light children # rest)
       model body_parent_name =
     (let body = Body name geom joint freejoint camera light children;
          link = mjcf_body_to_sdf c body body_parent_name;
          link = add_sensors c camera link;
          model = add_joints c joint body_parent_name name model;
          model = (if length joint = 0 \<and> freejoint = None
                   then model\<lparr>model_joints :=
                           model_joints model @ [add_fixed_joint c body_parent_name name]\<rparr>
                   else model);
          model = model\<lparr>model_links := model_links model @ [link]\<rparr>;
          model = iterate_bodies c children model name
      in iterate_bodies c rest model body_parent_name)"

text \<open>The dictionary \<open>plugins\<close> (lines 115-124), in insertion order, which is the order
  of \<open>plugins.items()\<close>.\<close>

definition plugins :: "(string \<times> string) list" where
  "plugins =
     [(''ignition-gazebo-physics-system'', ''ignition::gazebo::systems::Physics''),
      (''ignition-gazebo-sensors-system'', ''ignition::gazebo::systems::Sensors''),
      (''ignition-gazebo-user-commands-system'', ''ignition::gazebo::systems::UserCommands''),
      (''ignition-gazebo-scene-broadcaster-system'',
       ''ignition::gazebo::systems::SceneBroadcaster'')]"

text \<open>
  The options block (lines 71-81). Each \<open>su.list_to_vec3d\<close> can raise; the world then
  keeps what was set before.
\<close>

definition world_options ::
  "mjcf_option option \<Rightarrow> ('lt, 'lk, 'sn, 'jt) sdf_world
     \<Rightarrow> ('lt, 'lk, 'sn, 'jt) sdf_world \<times> error option" where
  "world_options opt world =
     (case opt of
        None \<Rightarrow> (world, None)
      | Some option \<Rightarrow>
         (case (if flag_gravity (option_flag option) = Some ''disable''
                then Inr (world\<lparr>world_gravity := (0, 0, 0)\<rparr>)
                else if option_gravity option \<noteq> None
                then raise_bind (list_to_vec3d (option_gravity option))
                       (\<lambda>v. Inr (world\<lparr>world_gravity := v\<rparr>))
                else Inr world) of
            Inl e \<Rightarrow> (world, Some e)
          | Inr world1 \<Rightarrow>
             (case (if option_magnetic option \<noteq> None
                    then raise_bind (list_to_vec3d (option_magnetic option))
                           (\<lambda>v. Inr (world1\<lparr>world_magnetic_field := v\<rparr>))
                    else Inr world1) of
                Inl e \<Rightarrow> (world1, Some e)
              | Inr world2 \<Rightarrow>
                 (case (if option_wind option \<noteq> None
                        then raise_bind (list_to_vec3d (option_wind option))
                               (\<lambda>v. Inr (world2\<lparr>world_wind_linear_velocity := v\<rparr>))
                        else Inr world2) of
                    Inl e \<Rightarrow> (world2, Some e)
                  | Inr world3 \<Rightarrow> (world3, None)))))"

text \<open>
  \<open>mjcf_worldbody_to_sdf\<close>. The world is updated in place, so the function returns the
  world together with the exception that ended it, if any.
\<close>

definition mjcf_worldbody_to_sdf ::
  "('e, 'lt, 'lk, 'sn, 'jt) converters \<Rightarrow> 'e mjcf_root \<Rightarrow> ('lt, 'lk, 'sn, 'jt) sdf_world
     \<Rightarrow> bool \<Rightarrow> ('lt, 'lk, 'sn, 'jt) sdf_world \<times> error option" where
  "mjcf_worldbody_to_sdf c mjcf_root world export_world_plugins =
     (let model = Model\<lparr>model_name :=
                    (case root_model mjcf_root of Some n \<Rightarrow> n | None \<Rightarrow> ''model'')\<rparr>;
          model_static = Model;
          world = foldl (\<lambda>world light.
                     world\<lparr>world_lights := world_lights world
                        @ [mjcf_light_to_sdf c (apply_modifiers_to_element c light)]\<rparr>)
                    world (body_light (root_worldbody mjcf_root));
          link = mjcf_body_to_sdf c (root_worldbody mjcf_root) None;
          model_static = model_static\<lparr>model_name :=
                           find_unique_name c (root_worldbody mjcf_root) ''geom'' ''static''\<rparr>;
          link = add_sensors c (body_camera (root_worldbody mjcf_root)) link;
          model_static = model_static\<lparr>model_links := model_links model_static @ [link]\<rparr>;
          model_static = model_static\<lparr>static := True\<rparr>;
          world = world\<lparr>world_models := world_models world @ [model_static]\<rparr>;
          body = body_body (root_worldbody mjcf_root)
      in case world_options (root_option mjcf_root) world of
           (world, Some e) \<Rightarrow> (world, Some e)
         | (world, None) \<Rightarrow>
            (let model = iterate_bodies c body model None;
                 world = (if export_world_plugins
                          then foldl (\<lambda>world (key, value).
                                  world\<lparr>world_plugins := world_plugins world @ [(key, value)]\<rparr>)
                                world plugins
                          else world)
             in (world\<lparr>world_models := world_models world @ [model]\<rparr>, None)))"


subsection \<open>The joints the spec asks for\<close>

text \<open>
  The spec's rule, in its own words: walking the tree in pre-order, every body is
  paired with the name of its immediate parent; it contributes its declared joints,
  mapped with the parent's and its own name, and, when it declares zero joints and is
  not marked free-floating, exactly one Fixed joint connecting it to that parent.
\<close>

fun bodies_with_parent ::
  "'e body_tree list \<Rightarrow> string option \<Rightarrow> ('e body_tree \<times> string option) list" where
  "bodies_with_parent [] parent = []"
| "bodies_with_parent (Body name geom joint freejoint camera light children # rest) parent =
     (Body name geom joint freejoint camera light children, parent)
       # bodies_with_parent children name @ bodies_with_parent rest parent"

definition declared_joints ::
  "('e, 'lt, 'lk, 'sn, 'jt) converters \<Rightarrow> 'e body_tree \<Rightarrow> string option \<Rightarrow> 'jt list" where
  "declared_joints c body parent =
     List.map_filter
       (\<lambda>joint. mjcf_joint_to_sdf c (apply_modifiers_to_element c joint) parent (body_name body))
       (body_joint body)"

definition synthesized_joints ::
  "('e, 'lt, 'lk, 'sn, 'jt) converters \<Rightarrow> 'e body_tree \<Rightarrow> string option \<Rightarrow> 'jt list" where
  "synthesized_joints c body parent =
     (if body_joint body = [] \<and> body_freejoint body = None
      then [add_fixed_joint c parent (body_name body)] else [])"

section \<open>Sequences of conversions\<close>

text \<open>
  The two geometry converters share the module state, and nothing resets it. A
  sequence of calls of \<open>mjcf_visual_to_sdf\<close> and \<open>mjcf_collision_to_sdf\<close>, on any geoms,
  whether they return or raise, takes the state through each call in turn.
\<close>

datatype conversion_call = Visual_call mjcf_geom | Collision_call mjcf_geom

fun state_after :: "conversion_call list \<Rightarrow> module_state \<Rightarrow> module_state" where
  "state_after [] st = st"
| "state_after (Visual_call geom # calls) st =
     state_after calls (snd (mjcf_visual_to_sdf geom st))"
| "state_after (Collision_call geom # calls) st =
     state_after calls (snd (mjcf_collision_to_sdf geom st))"

text \<open>The name of the element that a call returned, if it returned one.\<close>

definition returned_visual_name ::
  "(error + sdf_visual option) \<times> module_state \<Rightarrow> string option" where
  "returned_visual_name r =
     (case fst r of Inr (Some visual) \<Rightarrow> Some (visual_name visual) | _ \<Rightarrow> None)"

definition returned_collision_name ::
  "(error + sdf_collision option) \<times> module_state \<Rightarrow> string option" where
  "returned_collision_name r =
     (case fst r of Inr (Some col) \<Rightarrow> Some (collision_name col) | _ \<Rightarrow> None)"

text \<open>
  The entries of \<open>size\<close> and \<open>fromto\<close> that \<open>mjcf_geom_to_sdf\<close> subscripts, for each of
  the six type strings it knows: a geom has them when every such subscript is in
  range.
\<close>

definition has_entries :: "real list option \<Rightarrow> nat \<Rightarrow> bool" where
  "has_entries xs n = (case xs of None \<Rightarrow> False | Some l \<Rightarrow> n \<le> length l)"

definition subscripts_in_range :: "mjcf_geom \<Rightarrow> bool" where
  "subscripts_in_range geom =
     (if geom_type geom = Some ''box'' \<or> geom_type geom = Some ''ellipsoid''
      then has_entries (geom_size geom) 3
      else if geom_type geom = Some ''capsule'' \<or> geom_type geom = Some ''cylinder''
      then (if geom_fromto geom = None then has_entries (geom_size geom) 2
            else has_entries (geom_size geom) 1 \<and> has_entries (geom_fromto geom) 6)
      else if geom_type geom = Some ''sphere'' then has_entries (geom_size geom) 1
      else if geom_type geom = Some ''plane'' then has_entries (geom_size geom) 2
      else False)"

definition supported_types :: "string list" where
  "supported_types = [''box'', ''capsule'', ''cylinder'', ''ellipsoid'', ''sphere'', ''plane'']"

section \<open>An example conversion\<close>

text \<open>
  Converters that record what they were called with, and a small tree: under the
  world body, a body \<open>base\<close> with no joint, which has a child \<open>arm\<close> with one declared
  joint, and a body \<open>ball\<close> with a free joint.
\<close>

definition example_converters ::
  "(string, string, string option, string, string \<times> string option \<times> string option) converters" where
  "example_converters =
     \<lparr>apply_modifiers_to_element = (\<lambda>element. element),
      mjcf_light_to_sdf = (\<lambda>light. light),
      mjcf_body_to_sdf = (\<lambda>body body_parent_name. \<lparr>link_body = body_name body, link_sensors = []\<rparr>),
      find_unique_name = (\<lambda>body kind name. name),
      mjcf_camera_sensor_to_sdf = (\<lambda>camera. Some camera),
      mjcf_joint_to_sdf = (\<lambda>joint parent_name child_name. Some (joint, parent_name, child_name)),
      add_fixed_joint = (\<lambda>parent_name child_name. (''fixed'', parent_name, child_name))\<rparr>"

definition example_root :: "string mjcf_root" where
  "example_root =
     \<lparr>root_model = None,
      root_worldbody =
        Body None [] [] None [] []
          [Body (Some ''base'') [] [] None [] []
             [Body (Some ''arm'') [] [''hinge''] None [] [] []],
           Body (Some ''ball'') [] [] (Some ''free'') [] [] []],
      root_option = None\<rparr>"

definition example_world ::
  "(string, string option, string, string \<times> string option \<times> string option) sdf_world" where
  "example_world =
     \<lparr>world_lights = [], world_models = [], world_plugins = [],
      world_gravity = (0, 0, - 98 / 10), world_magnetic_field = (0, 0, 0),
      world_wind_linear_velocity = (0, 0, 0)\<rparr>"

section \<open>Properties of the Python primitives\<close>

subsection \<open>\<open>str\<close> is injective\<close>

lemma digit_char_inj: "a < 10 \<Longrightarrow> b < 10 \<Longrightarrow> digit_char a = digit_char b \<Longrightarrow> a = b"
proof -
  assume a: "a < 10" and b: "b < 10" and e: "digit_char a = digit_char b"
  have d: "distinct ''0123456789''" by simp
  from a b e show "a = b"
    unfolding digit_char_def using nth_eq_iff_index_eq [OF d, of a b] by simp
qed

lemma digit_char_not_minus: "d < 10 \<Longrightarrow> digit_char d \<noteq> CHR ''-''"
proof -
  assume "d < 10"
  then have "digit_char d \<in> set ''0123456789''"
    unfolding digit_char_def by (intro nth_mem) simp
  then show ?thesis by auto
qed

lemma str_nat_ne: "str_nat n \<noteq> []" "[] \<noteq> str_nat n"
  by (subst str_nat.simps, simp)+

lemma str_nat_inj: "str_nat m = str_nat n \<Longrightarrow> m = n"
proof (induction m arbitrary: n rule: str_nat.induct)
  case (1 m)
  show ?case
  proof (cases "m < 10")
    case True
    show ?thesis
    proof (cases "n < 10")
      case n: True
      with True 1(2) show ?thesis
        by (simp add: str_nat.simps [of m] str_nat.simps [of n] digit_char_inj)
    next
      case n: False
      with True 1(2) show ?thesis
        by (simp add: str_nat.simps [of m] str_nat.simps [of n] str_nat_ne)
    qed
  next
    case False
    show ?thesis
    proof (cases "n < 10")
      case n: True
      with False 1(2) show ?thesis
        by (simp add: str_nat.simps [of m] str_nat.simps [of n] str_nat_ne)
    next
      case n: False
      with False 1(2) have e: "str_nat (m div 10) = str_nat (n div 10)"
        and d: "digit_char (m mod 10) = digit_char (n mod 10)"
        by (simp_all add: str_nat.simps [of m] str_nat.simps [of n])
      from 1(1) [OF False e] have "m div 10 = n div 10" .
      moreover from d have "m mod 10 = n mod 10" by (simp add: digit_char_inj)
      ultimately show ?thesis by (metis div_mult_mod_eq)
    qed
  qed
qed

lemma hd_str_nat: "hd (str_nat n) \<noteq> CHR ''-''"
proof (induction n rule: str_nat.induct)
  case (1 n)
  show ?case
  proof (cases "n < 10")
    case True
    then show ?thesis by (simp add: str_nat.simps [of n] digit_char_not_minus)
  next
    case False
    with 1 show ?thesis by (simp add: str_nat.simps [of n] str_nat_ne)
  qed
qed

lemma str_inj: "str i = str j \<Longrightarrow> i = j"
proof -
  assume e: "str i = str j"
  have neg: "\<And>a b. a < 0 \<Longrightarrow> \<not> b < 0 \<Longrightarrow> str a \<noteq> str b"
  proof
    fix a b :: int
    assume "a < 0" "\<not> b < 0" "str a = str b"
    then have "hd (str_nat (nat b)) = CHR ''-''" by (simp add: str_def) (metis list.sel(1))
    then show False by (simp add: hd_str_nat)
  qed
  show "i = j"
  proof (cases "i < 0")
    case True
    show ?thesis
    proof (cases "j < 0")
      case j: True
      with True e have "nat (- i) = nat (- j)" by (simp add: str_def str_nat_inj)
      with True j show ?thesis by simp
    next
      case j: False
      with True e neg show ?thesis by blast
    qed
  next
    case False
    show ?thesis
    proof (cases "j < 0")
      case j: True
      with False e neg [of j i] show ?thesis by simp
    next
      case j: False
      with False e have "nat i = nat j" by (simp add: str_def str_nat_inj)
      with False j show ?thesis by simp
    qed
  qed
qed

lemma str_0: "str 0 = ''0''"
  by (simp add: str_def str_nat.simps digit_char_def)

lemma str_1: "str 1 = ''1''"
  by (simp add: str_def str_nat.simps digit_char_def)

subsection \<open>Subscripts and the geometry converter\<close>

lemma has_entries_simps [simp]:
  "has_entries None n = False"
  "has_entries (Some l) n = (n \<le> length l)"
  by (simp_all add: has_entries_def)

lemma subscript_simps [simp]:
  "subscript None i = Inl TypeError"
  "subscript (Some l) i = (if i < length l then Inr (l ! i) else Inl IndexError)"
  by (simp_all add: subscript_def)

lemma raise_bind_simps [simp]:
  "raise_bind (Inl e) f = Inl e"
  "raise_bind (Inr x) f = f x"
  by (simp_all add: raise_bind_def)

lemma list_to_vec3d_simps:
  "list_to_vec3d None = Inl TypeError"
  "3 \<le> length l \<Longrightarrow> list_to_vec3d (Some l) = Inr (l ! 0, l ! 1, l ! 2)"
  "\<not> 3 \<le> length l \<Longrightarrow> list_to_vec3d (Some l) = Inl IndexError"
  by (auto simp: list_to_vec3d_def)

lemma fromto_length_simps:
  "fromto_length None = Inl TypeError"
  "6 \<le> length l \<Longrightarrow>
     fromto_length (Some l) = Inr (distance (l ! 0, l ! 1, l ! 2) (l ! 3, l ! 4, l ! 5))"
  "\<not> 6 \<le> length l \<Longrightarrow> fromto_length (Some l) = Inl IndexError"
  by (auto simp: fromto_length_def)

lemma mjcf_geom_to_sdf_not_None: "mjcf_geom_to_sdf geom \<noteq> Inr None"
  by (auto simp: mjcf_geom_to_sdf_def raise_bind_def Let_def split: sum.splits if_splits)

lemma mjcf_geom_to_sdf_returns:
  assumes "subscripts_in_range geom"
  shows "\<exists>g. mjcf_geom_to_sdf geom = Inr (Some g)"
proof (cases "geom_size geom")
  case None
  with assms show ?thesis
    by (auto simp: subscripts_in_range_def split: if_splits)
next
  case (Some l)
  show ?thesis
  proof (cases "geom_fromto geom")
    case None
    with Some assms show ?thesis
      by (auto simp: subscripts_in_range_def mjcf_geom_to_sdf_def Let_def list_to_vec3d_simps
            split: if_splits)
  next
    case ft: (Some f)
    with Some assms show ?thesis
      by (auto simp: subscripts_in_range_def mjcf_geom_to_sdf_def Let_def list_to_vec3d_simps
            fromto_length_simps split: if_splits)
  qed
qed

lemma mjcf_geom_to_sdf_raises:
  assumes "\<not> subscripts_in_range geom"
  shows "\<exists>e. mjcf_geom_to_sdf geom = Inl e"
proof (cases "geom_size geom")
  case None
  then show ?thesis
    by (auto simp: mjcf_geom_to_sdf_def Let_def list_to_vec3d_simps)
next
  case (Some l)
  show ?thesis
  proof (cases "geom_fromto geom")
    case None
    with Some assms show ?thesis
      by (auto simp: subscripts_in_range_def mjcf_geom_to_sdf_def Let_def list_to_vec3d_simps Suc_le_eq
            split: if_splits)
  next
    case ft: (Some f)
    with Some assms show ?thesis
      by (auto simp: subscripts_in_range_def mjcf_geom_to_sdf_def Let_def list_to_vec3d_simps
            fromto_length_simps Suc_le_eq split: if_splits)
  qed
qed


lemma supported_types_iff:
  "(\<exists>t \<in> set supported_types. geom_type geom = Some t) \<longleftrightarrow>
     geom_type geom = Some ''box'' \<or> geom_type geom = Some ''capsule''
     \<or> geom_type geom = Some ''cylinder'' \<or> geom_type geom = Some ''ellipsoid''
     \<or> geom_type geom = Some ''sphere'' \<or> geom_type geom = Some ''plane''"
  by (auto simp: supported_types_def)

lemma mjcf_geom_to_sdf_unsupported:
  assumes "\<not> (\<exists>t \<in> set supported_types. geom_type geom = Some t)"
  shows "mjcf_geom_to_sdf geom =
           Inl (RuntimeError (''Encountered unsupported shape type ''
                                @ format_opt (geom_type geom)))"
  using assms unfolding supported_types_iff by (simp add: mjcf_geom_to_sdf_def)

lemma mjcf_geom_to_sdf_raises_class:
  assumes "\<exists>t \<in> set supported_types. geom_type geom = Some t"
    and "\<not> subscripts_in_range geom"
  shows "mjcf_geom_to_sdf geom = Inl IndexError \<or> mjcf_geom_to_sdf geom = Inl TypeError"
proof (cases "geom_size geom")
  case None
  with assms show ?thesis
    unfolding supported_types_iff
    by (auto simp: mjcf_geom_to_sdf_def Let_def list_to_vec3d_simps)
next
  case (Some l)
  show ?thesis
  proof (cases "geom_fromto geom")
    case None
    with Some assms show ?thesis
      unfolding supported_types_iff
      by (auto simp: subscripts_in_range_def mjcf_geom_to_sdf_def Let_def list_to_vec3d_simps
            Suc_le_eq split: if_splits)
  next
    case ft: (Some f)
    with Some assms show ?thesis
      unfolding supported_types_iff
      by (auto simp: subscripts_in_range_def mjcf_geom_to_sdf_def Let_def list_to_vec3d_simps
            fromto_length_simps Suc_le_eq split: if_splits)
  qed
qed

lemma visual_result:
  "mjcf_visual_to_sdf geom st =
     (map_sum id (map_option (\<lambda>g. \<lparr>visual_name =
          (case geom_name geom of Some n \<Rightarrow> ''visual_'' @ n
           | None \<Rightarrow> ''unnamed_visual_'' @ str (VISUAL_NUMBER st)), visual_geometry = g\<rparr>))
        (mjcf_geom_to_sdf geom),
      case geom_name geom of Some n \<Rightarrow> st
      | None \<Rightarrow> st\<lparr>VISUAL_NUMBER := VISUAL_NUMBER st + 1\<rparr>)"
  by (simp add: mjcf_visual_to_sdf_def split: option.splits sum.splits)

lemma collision_result:
  "mjcf_collision_to_sdf geom st =
     (map_sum id (map_option (\<lambda>g. \<lparr>collision_name =
          (case geom_name geom of Some n \<Rightarrow> ''collision_'' @ n
           | None \<Rightarrow> ''unnamed_collision_'' @ str (COLLISION_NUMBER st)), collision_geometry = g\<rparr>))
        (mjcf_geom_to_sdf geom),
      case geom_name geom of Some n \<Rightarrow> st
      | None \<Rightarrow> st\<lparr>COLLISION_NUMBER := COLLISION_NUMBER st + 1\<rparr>)"
  by (simp add: mjcf_collision_to_sdf_def split: option.splits sum.splits)

lemma state_after_mono:
  "VISUAL_NUMBER st \<le> VISUAL_NUMBER (state_after calls st)
   \<and> COLLISION_NUMBER st \<le> COLLISION_NUMBER (state_after calls st)"
proof (induction calls st rule: state_after.induct)
  case (1 st)
  show ?case by simp
next
  case (2 geom calls st)
  then show ?case by (simp add: visual_result split: option.splits)
next
  case (3 geom calls st)
  then show ?case by (simp add: collision_result split: option.splits)
qed

section \<open>The claims\<close>

subsection \<open>The geometry converter never returns \<open>None\<close>\<close>

text \<open>
  Claim C10, as stated, says that for every geom of one of the six supported type
  strings the two converters always return an element. It fails on a capsule whose
  size list has one entry and that has no \<open>fromto\<close>: \<open>geom.size[1]\<close> raises IndexError,
  so \<open>mjcf_visual_to_sdf\<close> returns nothing.
\<close>

theorem supported_type_short_size_raises:
  "fst (mjcf_visual_to_sdf
          \<lparr>geom_name = None, geom_type = Some ''capsule'', geom_size = Some [1 / 2],
           geom_fromto = None, geom_pos = None, geom_euler = None, geom_group = None\<rparr>
          module_loaded) = Inl IndexError"
  by (simp add: visual_result mjcf_geom_to_sdf_def)

text \<open>
  Claim C10, amended: \<open>mjcf_geom_to_sdf\<close> returns a geometry or raises, and never
  returns \<open>None\<close>; so \<open>mjcf_visual_to_sdf\<close> and \<open>mjcf_collision_to_sdf\<close> never return
  \<open>None\<close> either, and their fallback branches are unreachable. For a geom of one of
  the six supported type strings whose size and fromto lists hold the entries that
  the branch of its type subscripts, both return an element; for every other geom
  both raise: IndexError or TypeError when the type string is a supported one,
  RuntimeError when it is not.
\<close>

theorem geom_converters_never_return_None:
  "mjcf_geom_to_sdf geom \<noteq> Inr None
   \<and> fst (mjcf_visual_to_sdf geom st) \<noteq> Inr None
   \<and> fst (mjcf_collision_to_sdf geom st) \<noteq> Inr None
   \<and> (subscripts_in_range geom \<longrightarrow>
        (\<exists>visual. fst (mjcf_visual_to_sdf geom st) = Inr (Some visual))
        \<and> (\<exists>col. fst (mjcf_collision_to_sdf geom st) = Inr (Some col)))
   \<and> (\<not> subscripts_in_range geom \<longrightarrow>
        (\<exists>e. fst (mjcf_visual_to_sdf geom st) = Inl e)
        \<and> (\<exists>e. fst (mjcf_collision_to_sdf geom st) = Inl e))
   \<and> ((\<exists>t \<in> set supported_types. geom_type geom = Some t) \<and> \<not> subscripts_in_range geom \<longrightarrow>
        (fst (mjcf_visual_to_sdf geom st) = Inl IndexError
           \<or> fst (mjcf_visual_to_sdf geom st) = Inl TypeError)
        \<and> (fst (mjcf_collision_to_sdf geom st) = Inl IndexError
           \<or> fst (mjcf_collision_to_sdf geom st) = Inl TypeError))
   \<and> (\<not> (\<exists>t \<in> set supported_types. geom_type geom = Some t) \<longrightarrow>
        \<not> subscripts_in_range geom
        \<and> fst (mjcf_visual_to_sdf geom st)
            = Inl (RuntimeError (''Encountered unsupported shape type ''
                                  @ format_opt (geom_type geom)))
        \<and> fst (mjcf_collision_to_sdf geom st)
            = Inl (RuntimeError (''Encountered unsupported shape type ''
                                  @ format_opt (geom_type geom))))"
proof -
  have n: "mjcf_geom_to_sdf geom \<noteq> Inr None" by (rule mjcf_geom_to_sdf_not_None)
  have v: "fst (mjcf_visual_to_sdf geom st) \<noteq> Inr None"
    using n by (cases "mjcf_geom_to_sdf geom") (auto simp: visual_result)
  have c: "fst (mjcf_collision_to_sdf geom st) \<noteq> Inr None"
    using n by (cases "mjcf_geom_to_sdf geom") (auto simp: collision_result)
  have r: "subscripts_in_range geom \<longrightarrow>
        (\<exists>visual. fst (mjcf_visual_to_sdf geom st) = Inr (Some visual))
        \<and> (\<exists>col. fst (mjcf_collision_to_sdf geom st) = Inr (Some col))"
    using mjcf_geom_to_sdf_returns [of geom] by (auto simp: visual_result collision_result)
  have e: "\<not> subscripts_in_range geom \<longrightarrow>
        (\<exists>e. fst (mjcf_visual_to_sdf geom st) = Inl e)
        \<and> (\<exists>e. fst (mjcf_collision_to_sdf geom st) = Inl e)"
    using mjcf_geom_to_sdf_raises [of geom] by (auto simp: visual_result collision_result)
  have k: "(\<exists>t \<in> set supported_types. geom_type geom = Some t) \<and> \<not> subscripts_in_range geom \<longrightarrow>
        (fst (mjcf_visual_to_sdf geom st) = Inl IndexError
           \<or> fst (mjcf_visual_to_sdf geom st) = Inl TypeError)
        \<and> (fst (mjcf_collision_to_sdf geom st) = Inl IndexError
           \<or> fst (mjcf_collision_to_sdf geom st) = Inl TypeError)"
    using mjcf_geom_to_sdf_raises_class [of geom] by (auto simp: visual_result collision_result)
  have u: "\<not> (\<exists>t \<in> set supported_types. geom_type geom = Some t) \<longrightarrow>
        \<not> subscripts_in_range geom
        \<and> fst (mjcf_visual_to_sdf geom st)
            = Inl (RuntimeError (''Encountered unsupported shape type ''
                                  @ format_opt (geom_type geom)))
        \<and> fst (mjcf_collision_to_sdf geom st)
            = Inl (RuntimeError (''Encountered unsupported shape type ''
                                  @ format_opt (geom_type geom)))"
  proof
    assume a: "\<not> (\<exists>t \<in> set supported_types. geom_type geom = Some t)"
    then have "\<not> subscripts_in_range geom"
      unfolding supported_types_iff by (simp add: subscripts_in_range_def)
    with mjcf_geom_to_sdf_unsupported [OF a]
    show "\<not> subscripts_in_range geom
        \<and> fst (mjcf_visual_to_sdf geom st)
            = Inl (RuntimeError (''Encountered unsupported shape type ''
                                  @ format_opt (geom_type geom)))
        \<and> fst (mjcf_collision_to_sdf geom st)
            = Inl (RuntimeError (''Encountered unsupported shape type ''
                                  @ format_opt (geom_type geom)))"
      by (simp add: visual_result collision_result)
  qed
  from n v c r e k u show ?thesis by blast
qed

theorem geom_converters_never_return_None_witness:
  "subscripts_in_range
     \<lparr>geom_name = None, geom_type = Some ''sphere'', geom_size = Some [1],
      geom_fromto = None, geom_pos = None, geom_euler = None, geom_group = None\<rparr>
   \<and> (\<exists>visual. fst (mjcf_visual_to_sdf
     \<lparr>geom_name = None, geom_type = Some ''sphere'', geom_size = Some [1],
      geom_fromto = None, geom_pos = None, geom_euler = None, geom_group = None\<rparr> module_loaded)
      = Inr (Some visual))
   \<and> \<not> subscripts_in_range
     \<lparr>geom_name = None, geom_type = Some ''capsule'', geom_size = Some [1 / 2],
      geom_fromto = None, geom_pos = None, geom_euler = None, geom_group = None\<rparr>
   \<and> (\<exists>e. fst (mjcf_collision_to_sdf
     \<lparr>geom_name = None, geom_type = Some ''capsule'', geom_size = Some [1 / 2],
      geom_fromto = None, geom_pos = None, geom_euler = None, geom_group = None\<rparr> module_loaded)
      = Inl e)
   \<and> (fst (mjcf_collision_to_sdf
     \<lparr>geom_name = None, geom_type = Some ''capsule'', geom_size = Some [1 / 2],
      geom_fromto = None, geom_pos = None, geom_euler = None, geom_group = None\<rparr> module_loaded)
      = Inl IndexError
     \<or> fst (mjcf_collision_to_sdf
     \<lparr>geom_name = None, geom_type = Some ''capsule'', geom_size = Some [1 / 2],
      geom_fromto = None, geom_pos = None, geom_euler = None, geom_group = None\<rparr> module_loaded)
      = Inl TypeError)
   \<and> fst (mjcf_visual_to_sdf
     \<lparr>geom_name = None, geom_type = Some ''mesh'', geom_size = Some [1],
      geom_fromto = None, geom_pos = None, geom_euler = None, geom_group = None\<rparr> module_loaded)
      = Inl (RuntimeError ''Encountered unsupported shape type mesh'')"
proof -
  let ?g1 = "\<lparr>geom_name = None, geom_type = Some ''sphere'', geom_size = Some [1],
      geom_fromto = None, geom_pos = None, geom_euler = None, geom_group = None\<rparr>"
  let ?g2 = "\<lparr>geom_name = None, geom_type = Some ''capsule'', geom_size = Some [1 / 2],
      geom_fromto = None, geom_pos = None, geom_euler = None, geom_group = None\<rparr>"
  let ?g3 = "\<lparr>geom_name = None, geom_type = Some ''mesh'', geom_size = Some [1],
      geom_fromto = None, geom_pos = None, geom_euler = None, geom_group = None\<rparr>"
  have h1: "subscripts_in_range ?g1" by (simp add: subscripts_in_range_def)
  have h2: "\<not> subscripts_in_range ?g2" by (simp add: subscripts_in_range_def)
  have s2: "\<exists>t \<in> set supported_types. geom_type ?g2 = Some t"
    by (simp add: supported_types_def)
  have s3: "\<not> (\<exists>t \<in> set supported_types. geom_type ?g3 = Some t)"
    by (simp add: supported_types_def)
  have m: "fst (mjcf_visual_to_sdf ?g3 module_loaded)
      = Inl (RuntimeError ''Encountered unsupported shape type mesh'')"
    using s3 geom_converters_never_return_None [of ?g3 module_loaded] by (simp add: format_opt_def)
  from h1 h2 s2 m geom_converters_never_return_None [of ?g1 module_loaded] geom_converters_never_return_None [of ?g2 module_loaded]
  show ?thesis by blast
qed

subsection \<open>Capsules and cylinders\<close>

text \<open>
  Claim C6: for a capsule or a cylinder given by a \<open>fromto\<close> segment of two 3D
  endpoints, the emitted length is the Euclidean distance between the endpoints,
  whatever the direction of the segment, and the radius is the first size entry;
  without \<open>fromto\<close> the length is the second size entry (the half-length) times 2.
\<close>

theorem capsule_cylinder_length:
  "(geom_type geom = Some ''capsule'' \<and> geom_size geom = Some (r # rest)
      \<and> geom_fromto geom = Some [x1, y1, z1, x2, y2, z2] \<longrightarrow>
    mjcf_geom_to_sdf geom =
      Inr (Some (Geometry\<lparr>capsule_shape := Some \<lparr>capsule_radius = r,
            capsule_length = sqrt ((x2 - x1)\<^sup>2 + (y2 - y1)\<^sup>2 + (z2 - z1)\<^sup>2)\<rparr>,
          gtype := CAPSULE\<rparr>)))
   \<and> (geom_type geom = Some ''cylinder'' \<and> geom_size geom = Some (r # rest)
      \<and> geom_fromto geom = Some [x1, y1, z1, x2, y2, z2] \<longrightarrow>
    mjcf_geom_to_sdf geom =
      Inr (Some (Geometry\<lparr>cylinder_shape := Some \<lparr>cylinder_radius = r,
            cylinder_length = sqrt ((x2 - x1)\<^sup>2 + (y2 - y1)\<^sup>2 + (z2 - z1)\<^sup>2)\<rparr>,
          gtype := CYLINDER\<rparr>)))
   \<and> (geom_type geom = Some ''capsule'' \<and> geom_size geom = Some (r # h # rest)
      \<and> geom_fromto geom = None \<longrightarrow>
    mjcf_geom_to_sdf geom =
      Inr (Some (Geometry\<lparr>capsule_shape := Some \<lparr>capsule_radius = r, capsule_length = h * 2\<rparr>,
          gtype := CAPSULE\<rparr>)))
   \<and> (geom_type geom = Some ''cylinder'' \<and> geom_size geom = Some (r # h # rest)
      \<and> geom_fromto geom = None \<longrightarrow>
    mjcf_geom_to_sdf geom =
      Inr (Some (Geometry\<lparr>cylinder_shape := Some \<lparr>cylinder_radius = r, cylinder_length = h * 2\<rparr>,
          gtype := CYLINDER\<rparr>)))"
proof -
  have d: "distance (x1, y1, z1) (x2, y2, z2)
             = sqrt ((x2 - x1)\<^sup>2 + (y2 - y1)\<^sup>2 + (z2 - z1)\<^sup>2)"
    by (simp add: distance_def power2_commute)
  have f: "fromto_length (Some [x1, y1, z1, x2, y2, z2])
             = Inr (sqrt ((x2 - x1)\<^sup>2 + (y2 - y1)\<^sup>2 + (z2 - z1)\<^sup>2))"
    by (simp add: fromto_length_simps d)
  show ?thesis
    by (simp add: mjcf_geom_to_sdf_def f)
qed

theorem capsule_cylinder_length_witness:
  "mjcf_geom_to_sdf \<lparr>geom_name = None, geom_type = Some ''capsule'', geom_size = Some [1 / 4],
      geom_fromto = Some [1, 1, 1, 1, 4, 5], geom_pos = None, geom_euler = None,
      geom_group = None\<rparr>
     = Inr (Some (Geometry\<lparr>capsule_shape := Some \<lparr>capsule_radius = 1 / 4, capsule_length = 5\<rparr>,
                            gtype := CAPSULE\<rparr>))
   \<and> mjcf_geom_to_sdf \<lparr>geom_name = None, geom_type = Some ''cylinder'', geom_size = Some [1 / 4, 3],
      geom_fromto = None, geom_pos = None, geom_euler = None, geom_group = None\<rparr>
     = Inr (Some (Geometry\<lparr>cylinder_shape := Some \<lparr>cylinder_radius = 1 / 4, cylinder_length = 6\<rparr>,
                            gtype := CYLINDER\<rparr>))"
proof -
  have s: "sqrt ((1 - 1)\<^sup>2 + (4 - 1)\<^sup>2 + (5 - 1)\<^sup>2) = (5::real)"
  proof -
    have "(1 - 1)\<^sup>2 + (4 - 1)\<^sup>2 + (5 - 1)\<^sup>2 = (5::real)\<^sup>2" by (simp add: power2_eq_square)
    then show ?thesis by (metis real_sqrt_abs abs_numeral)
  qed
  show ?thesis
    using capsule_cylinder_length [of "\<lparr>geom_name = None, geom_type = Some ''capsule'', geom_size = Some [1 / 4],
      geom_fromto = Some [1, 1, 1, 1, 4, 5], geom_pos = None, geom_euler = None,
      geom_group = None\<rparr>" "1 / 4" "[]" 1 1 1 1 4 5]
      capsule_cylinder_length [of "\<lparr>geom_name = None, geom_type = Some ''cylinder'', geom_size = Some [1 / 4, 3],
      geom_fromto = None, geom_pos = None, geom_euler = None, geom_group = None\<rparr>" "1 / 4" "[]" 0 0 0 0 0 0 3]
    by (simp add: s)
qed

subsection \<open>Names of the emitted visuals and collisions\<close>

lemma returned_visual_name_eq:
  "returned_visual_name (mjcf_visual_to_sdf geom st) = Some x \<longleftrightarrow>
     (\<exists>g. mjcf_geom_to_sdf geom = Inr (Some g))
     \<and> x = (case geom_name geom of Some n \<Rightarrow> ''visual_'' @ n
            | None \<Rightarrow> ''unnamed_visual_'' @ str (VISUAL_NUMBER st))"
  by (cases "mjcf_geom_to_sdf geom")
     (auto simp: returned_visual_name_def visual_result split: option.splits)

lemma returned_collision_name_eq:
  "returned_collision_name (mjcf_collision_to_sdf geom st) = Some x \<longleftrightarrow>
     (\<exists>g. mjcf_geom_to_sdf geom = Inr (Some g))
     \<and> x = (case geom_name geom of Some n \<Rightarrow> ''collision_'' @ n
            | None \<Rightarrow> ''unnamed_collision_'' @ str (COLLISION_NUMBER st))"
  by (cases "mjcf_geom_to_sdf geom")
     (auto simp: returned_collision_name_def collision_result split: option.splits)

lemma ball_geometry:
  "mjcf_geom_to_sdf \<lparr>geom_name = n, geom_type = Some ''sphere'', geom_size = Some [1],
      geom_fromto = None, geom_pos = None, geom_euler = None, geom_group = None\<rparr>
   = Inr (Some (Geometry\<lparr>sphere_shape := Some \<lparr>sphere_radius = 1\<rparr>, gtype := SPHERE\<rparr>))"
  by (simp add: mjcf_geom_to_sdf_def)

text \<open>
  Claim C8: a geometry attachment with a declared name is emitted under the role
  prefix (\<open>visual_\<close> or \<open>collision_\<close>) followed by that name, and the counters are left
  alone; one without a name is emitted as \<open>unnamed_<role>_<n>\<close>, where \<open>n\<close> is the
  counter of the role, which the call then increases by one. So of two anonymous
  attachments of the same role, converted one after the other with any sequence of
  conversions in between, the names differ.
\<close>

theorem attachment_names:
  "(geom_name geom = Some n \<and> mjcf_geom_to_sdf geom = Inr (Some g) \<longrightarrow>
      mjcf_visual_to_sdf geom st =
        (Inr (Some \<lparr>visual_name = ''visual_'' @ n, visual_geometry = g\<rparr>), st)
      \<and> mjcf_collision_to_sdf geom st =
        (Inr (Some \<lparr>collision_name = ''collision_'' @ n, collision_geometry = g\<rparr>), st))
   \<and> (geom_name geom = None \<and> mjcf_geom_to_sdf geom = Inr (Some g) \<longrightarrow>
      mjcf_visual_to_sdf geom st =
        (Inr (Some \<lparr>visual_name = ''unnamed_visual_'' @ str (VISUAL_NUMBER st),
                    visual_geometry = g\<rparr>),
         st\<lparr>VISUAL_NUMBER := VISUAL_NUMBER st + 1\<rparr>)
      \<and> mjcf_collision_to_sdf geom st =
        (Inr (Some \<lparr>collision_name = ''unnamed_collision_'' @ str (COLLISION_NUMBER st),
                    collision_geometry = g\<rparr>),
         st\<lparr>COLLISION_NUMBER := COLLISION_NUMBER st + 1\<rparr>))
   \<and> (geom_name g1 = None \<and> geom_name g2 = None
      \<and> s2 = state_after calls (snd (mjcf_visual_to_sdf g1 s1))
      \<and> returned_visual_name (mjcf_visual_to_sdf g1 s1) = Some n1
      \<and> returned_visual_name (mjcf_visual_to_sdf g2 s2) = Some n2 \<longrightarrow> n1 \<noteq> n2)
   \<and> (geom_name g1 = None \<and> geom_name g2 = None
      \<and> s2 = state_after calls (snd (mjcf_collision_to_sdf g1 s1))
      \<and> returned_collision_name (mjcf_collision_to_sdf g1 s1) = Some c1
      \<and> returned_collision_name (mjcf_collision_to_sdf g2 s2) = Some c2 \<longrightarrow> c1 \<noteq> c2)"
proof -
  have named: "geom_name geom = Some n \<and> mjcf_geom_to_sdf geom = Inr (Some g) \<longrightarrow>
      mjcf_visual_to_sdf geom st =
        (Inr (Some \<lparr>visual_name = ''visual_'' @ n, visual_geometry = g\<rparr>), st)
      \<and> mjcf_collision_to_sdf geom st =
        (Inr (Some \<lparr>collision_name = ''collision_'' @ n, collision_geometry = g\<rparr>), st)"
    by (simp add: visual_result collision_result)
  have anon: "geom_name geom = None \<and> mjcf_geom_to_sdf geom = Inr (Some g) \<longrightarrow>
      mjcf_visual_to_sdf geom st =
        (Inr (Some \<lparr>visual_name = ''unnamed_visual_'' @ str (VISUAL_NUMBER st),
                    visual_geometry = g\<rparr>),
         st\<lparr>VISUAL_NUMBER := VISUAL_NUMBER st + 1\<rparr>)
      \<and> mjcf_collision_to_sdf geom st =
        (Inr (Some \<lparr>collision_name = ''unnamed_collision_'' @ str (COLLISION_NUMBER st),
                    collision_geometry = g\<rparr>),
         st\<lparr>COLLISION_NUMBER := COLLISION_NUMBER st + 1\<rparr>)"
    by (simp add: visual_result collision_result)
  have vis: "geom_name g1 = None \<and> geom_name g2 = None
      \<and> s2 = state_after calls (snd (mjcf_visual_to_sdf g1 s1))
      \<and> returned_visual_name (mjcf_visual_to_sdf g1 s1) = Some n1
      \<and> returned_visual_name (mjcf_visual_to_sdf g2 s2) = Some n2 \<longrightarrow> n1 \<noteq> n2"
  proof (intro impI, elim conjE)
    assume a: "geom_name g1 = None" "geom_name g2 = None"
      and r: "s2 = state_after calls (snd (mjcf_visual_to_sdf g1 s1))"
      and n1: "returned_visual_name (mjcf_visual_to_sdf g1 s1) = Some n1"
      and n2: "returned_visual_name (mjcf_visual_to_sdf g2 s2) = Some n2"
    from a n1 have e1: "n1 = ''unnamed_visual_'' @ str (VISUAL_NUMBER s1)"
      by (simp add: returned_visual_name_eq)
    from a n2 have e2: "n2 = ''unnamed_visual_'' @ str (VISUAL_NUMBER s2)"
      by (simp add: returned_visual_name_eq)
    from state_after_mono [of "snd (mjcf_visual_to_sdf g1 s1)" calls] r a
    have "VISUAL_NUMBER s1 < VISUAL_NUMBER s2"
      by (simp add: visual_result)
    then have "str (VISUAL_NUMBER s1) \<noteq> str (VISUAL_NUMBER s2)"
      using str_inj by fastforce
    with e1 e2 show "n1 \<noteq> n2" by simp
  qed
  have col: "geom_name g1 = None \<and> geom_name g2 = None
      \<and> s2 = state_after calls (snd (mjcf_collision_to_sdf g1 s1))
      \<and> returned_collision_name (mjcf_collision_to_sdf g1 s1) = Some c1
      \<and> returned_collision_name (mjcf_collision_to_sdf g2 s2) = Some c2 \<longrightarrow> c1 \<noteq> c2"
  proof (intro impI, elim conjE)
    assume a: "geom_name g1 = None" "geom_name g2 = None"
      and r: "s2 = state_after calls (snd (mjcf_collision_to_sdf g1 s1))"
      and n1: "returned_collision_name (mjcf_collision_to_sdf g1 s1) = Some c1"
      and n2: "returned_collision_name (mjcf_collision_to_sdf g2 s2) = Some c2"
    from a n1 have e1: "c1 = ''unnamed_collision_'' @ str (COLLISION_NUMBER s1)"
      by (simp add: returned_collision_name_eq)
    from a n2 have e2: "c2 = ''unnamed_collision_'' @ str (COLLISION_NUMBER s2)"
      by (simp add: returned_collision_name_eq)
    from state_after_mono [of "snd (mjcf_collision_to_sdf g1 s1)" calls] r a
    have "COLLISION_NUMBER s1 < COLLISION_NUMBER s2"
      by (simp add: collision_result)
    then have "str (COLLISION_NUMBER s1) \<noteq> str (COLLISION_NUMBER s2)"
      using str_inj by fastforce
    with e1 e2 show "c1 \<noteq> c2" by simp
  qed
  from named anon vis col show ?thesis by blast
qed

theorem attachment_names_witness:
  "mjcf_visual_to_sdf
     \<lparr>geom_name = Some ''ball'', geom_type = Some ''sphere'', geom_size = Some [1],
      geom_fromto = None, geom_pos = None, geom_euler = None, geom_group = None\<rparr> module_loaded
   = (Inr (Some \<lparr>visual_name = ''visual_ball'',
         visual_geometry = Geometry\<lparr>sphere_shape := Some \<lparr>sphere_radius = 1\<rparr>, gtype := SPHERE\<rparr>\<rparr>),
      module_loaded)
   \<and> mjcf_collision_to_sdf
     \<lparr>geom_name = None, geom_type = Some ''sphere'', geom_size = Some [1],
      geom_fromto = None, geom_pos = None, geom_euler = None, geom_group = None\<rparr> module_loaded
   = (Inr (Some \<lparr>collision_name = ''unnamed_collision_0'',
         collision_geometry = Geometry\<lparr>sphere_shape := Some \<lparr>sphere_radius = 1\<rparr>, gtype := SPHERE\<rparr>\<rparr>),
      \<lparr>VISUAL_NUMBER = 0, COLLISION_NUMBER = 1\<rparr>)
   \<and> returned_visual_name
        (mjcf_visual_to_sdf
           \<lparr>geom_name = None, geom_type = Some ''sphere'', geom_size = Some [1],
            geom_fromto = None, geom_pos = None, geom_euler = None, geom_group = None\<rparr>
           module_loaded) = Some ''unnamed_visual_0''
   \<and> returned_visual_name
        (mjcf_visual_to_sdf
           \<lparr>geom_name = None, geom_type = Some ''sphere'', geom_size = Some [1],
            geom_fromto = None, geom_pos = None, geom_euler = None, geom_group = None\<rparr>
           (state_after
              [Collision_call
                 \<lparr>geom_name = None, geom_type = Some ''sphere'', geom_size = Some [1],
                  geom_fromto = None, geom_pos = None, geom_euler = None, geom_group = None\<rparr>,
               Visual_call
                 \<lparr>geom_name = Some ''ball'', geom_type = Some ''sphere'', geom_size = Some [1],
                  geom_fromto = None, geom_pos = None, geom_euler = None, geom_group = None\<rparr>]
              (snd (mjcf_visual_to_sdf
                 \<lparr>geom_name = None, geom_type = Some ''sphere'', geom_size = Some [1],
                  geom_fromto = None, geom_pos = None, geom_euler = None, geom_group = None\<rparr>
                 module_loaded)))) = Some ''unnamed_visual_1''
   \<and> ''unnamed_visual_0'' \<noteq> ''unnamed_visual_1''"
proof -
  let ?b = "\<lparr>geom_name = Some ''ball'', geom_type = Some ''sphere'', geom_size = Some [1],
      geom_fromto = None, geom_pos = None, geom_euler = None, geom_group = None\<rparr>"
  let ?a = "\<lparr>geom_name = None, geom_type = Some ''sphere'', geom_size = Some [1],
      geom_fromto = None, geom_pos = None, geom_euler = None, geom_group = None\<rparr>"
  let ?G = "Geometry\<lparr>sphere_shape := Some \<lparr>sphere_radius = 1\<rparr>, gtype := SPHERE\<rparr>"
  let ?calls = "[Collision_call ?a, Visual_call ?b]"
  let ?s2 = "state_after ?calls (snd (mjcf_visual_to_sdf ?a module_loaded))"
  have hb: "geom_name ?b = Some ''ball'' \<and> mjcf_geom_to_sdf ?b = Inr (Some ?G)"
    by (simp add: mjcf_geom_to_sdf_def)
  have ha: "geom_name ?a = None \<and> mjcf_geom_to_sdf ?a = Inr (Some ?G)"
    by (simp add: mjcf_geom_to_sdf_def)
  have s2: "?s2 = \<lparr>VISUAL_NUMBER = 1, COLLISION_NUMBER = 1\<rparr>"
    by (simp add: visual_result collision_result module_loaded_def)
  have n1: "returned_visual_name (mjcf_visual_to_sdf ?a module_loaded) = Some ''unnamed_visual_0''"
    using ha by (simp add: returned_visual_name_def visual_result module_loaded_def str_0)
  have n2: "returned_visual_name (mjcf_visual_to_sdf ?a ?s2) = Some ''unnamed_visual_1''"
    unfolding s2 using ha by (simp add: returned_visual_name_def visual_result str_1)
  have d: "''unnamed_visual_0'' \<noteq> ''unnamed_visual_1''"
    using ha n1 n2
      attachment_names [where ?g1.0 = ?a and ?g2.0 = ?a and ?s1.0 = module_loaded
        and ?s2.0 = ?s2 and calls = ?calls and ?n1.0 = "''unnamed_visual_0''"
        and ?n2.0 = "''unnamed_visual_1''"]
    by blast
  from hb ha
    attachment_names [where geom = ?b and n = "''ball''" and g = ?G and st = module_loaded]
    attachment_names [where geom = ?a and g = ?G and st = module_loaded]
  have "mjcf_visual_to_sdf ?b module_loaded
          = (Inr (Some \<lparr>visual_name = ''visual_ball'', visual_geometry = ?G\<rparr>), module_loaded)"
    and "mjcf_collision_to_sdf ?a module_loaded
          = (Inr (Some \<lparr>collision_name = ''unnamed_collision_0'', collision_geometry = ?G\<rparr>),
             \<lparr>VISUAL_NUMBER = 0, COLLISION_NUMBER = 1\<rparr>)"
    by (simp_all add: module_loaded_def str_0)
  with n1 n2 d show ?thesis by blast
qed

text \<open>
  Claim C3, as stated, says that each of two separate conversion runs names its one
  anonymous visual \<open>unnamed_visual_0\<close>. The counters are module globals that no code
  resets: the second run starts in the state that the first one left, and names its
  visual \<open>unnamed_visual_1\<close>.
\<close>

theorem second_run_continues_counter:
  "returned_visual_name
     (mjcf_visual_to_sdf
        \<lparr>geom_name = None, geom_type = Some ''sphere'', geom_size = Some [1],
         geom_fromto = None, geom_pos = None, geom_euler = None, geom_group = None\<rparr>
        module_loaded) = Some ''unnamed_visual_0''
   \<and> returned_visual_name
     (mjcf_visual_to_sdf
        \<lparr>geom_name = None, geom_type = Some ''sphere'', geom_size = Some [1],
         geom_fromto = None, geom_pos = None, geom_euler = None, geom_group = None\<rparr>
        (snd (mjcf_visual_to_sdf
                \<lparr>geom_name = None, geom_type = Some ''sphere'', geom_size = Some [1],
                 geom_fromto = None, geom_pos = None, geom_euler = None, geom_group = None\<rparr>
                module_loaded))) = Some ''unnamed_visual_1''"
  by (simp add: returned_visual_name_def ball_geometry visual_result module_loaded_def str_0 str_1)

text \<open>
  Claim C3, amended: the counters are zero when the module is loaded, and they are
  module state that carries over from one run to the next. An anonymous visual is
  named after the value of \<open>VISUAL_NUMBER\<close> in the state in which its conversion
  starts, and leaves the counter one higher; so of two runs in one process that
  convert one anonymous visual each, the first of them starting with the module as
  loaded, the first produces \<open>unnamed_visual_0\<close> and the second \<open>unnamed_visual_1\<close>.
\<close>

theorem anonymous_names_follow_module_state:
  "VISUAL_NUMBER module_loaded = 0 \<and> COLLISION_NUMBER module_loaded = 0
   \<and> (geom_name g1 = None \<and> mjcf_geom_to_sdf g1 = Inr (Some a1) \<longrightarrow>
        returned_visual_name (mjcf_visual_to_sdf g1 st)
          = Some (''unnamed_visual_'' @ str (VISUAL_NUMBER st))
        \<and> VISUAL_NUMBER (snd (mjcf_visual_to_sdf g1 st)) = VISUAL_NUMBER st + 1)
   \<and> (geom_name g1 = None \<and> mjcf_geom_to_sdf g1 = Inr (Some a1)
      \<and> geom_name g2 = None \<and> mjcf_geom_to_sdf g2 = Inr (Some a2) \<longrightarrow>
        returned_visual_name (mjcf_visual_to_sdf g1 module_loaded) = Some ''unnamed_visual_0''
        \<and> returned_visual_name
            (mjcf_visual_to_sdf g2 (snd (mjcf_visual_to_sdf g1 module_loaded)))
          = Some ''unnamed_visual_1'')"
  by (simp add: returned_visual_name_def visual_result module_loaded_def str_0 str_1)

theorem anonymous_names_follow_module_state_witness:
  "returned_visual_name
     (mjcf_visual_to_sdf
        \<lparr>geom_name = None, geom_type = Some ''sphere'', geom_size = Some [1],
         geom_fromto = None, geom_pos = None, geom_euler = None, geom_group = None\<rparr>
        \<lparr>VISUAL_NUMBER = 1, COLLISION_NUMBER = 0\<rparr>) = Some ''unnamed_visual_1''
   \<and> returned_visual_name
     (mjcf_visual_to_sdf
        \<lparr>geom_name = None, geom_type = Some ''box'', geom_size = Some [1, 2, 3],
         geom_fromto = None, geom_pos = None, geom_euler = None, geom_group = None\<rparr>
        (snd (mjcf_visual_to_sdf
                \<lparr>geom_name = None, geom_type = Some ''sphere'', geom_size = Some [1],
                 geom_fromto = None, geom_pos = None, geom_euler = None, geom_group = None\<rparr>
                module_loaded))) = Some ''unnamed_visual_1''"
proof -
  let ?g1 = "\<lparr>geom_name = None, geom_type = Some ''sphere'', geom_size = Some [1],
         geom_fromto = None, geom_pos = None, geom_euler = None, geom_group = None\<rparr>"
  let ?g2 = "\<lparr>geom_name = None, geom_type = Some ''box'', geom_size = Some [1, 2, 3],
         geom_fromto = None, geom_pos = None, geom_euler = None, geom_group = None\<rparr>"
  have h1: "geom_name ?g1 = None \<and> mjcf_geom_to_sdf ?g1
      = Inr (Some (Geometry\<lparr>sphere_shape := Some \<lparr>sphere_radius = 1\<rparr>, gtype := SPHERE\<rparr>))"
    by (simp add: mjcf_geom_to_sdf_def)
  have h2: "geom_name ?g2 = None \<and> mjcf_geom_to_sdf ?g2
      = Inr (Some (Geometry\<lparr>box_shape := Some \<lparr>box_size = (2, 4, 6)\<rparr>, gtype := BOX\<rparr>))"
    by (simp add: mjcf_geom_to_sdf_def list_to_vec3d_simps vec3_scale_def)
  from h1 h2
    anonymous_names_follow_module_state [of ?g1 _ "\<lparr>VISUAL_NUMBER = 1, COLLISION_NUMBER = 0\<rparr>" ?g2]
  show ?thesis by (simp add: str_1)
qed

subsection \<open>Meshes and unknown shapes\<close>

lemma body_add_simps:
  "name_accepted body name \<Longrightarrow>
     body_add body name pos euler =
       Inr (\<lparr>geom_name = (if name = [] then None else Some name),
             geom_type = None, geom_size = None, geom_fromto = None,
             geom_pos = Some pos, geom_euler = Some euler, geom_group = None\<rparr>,
            body\<lparr>body_geoms := body_geoms body
                    @ [\<lparr>geom_name = (if name = [] then None else Some name),
                         geom_type = None, geom_size = None, geom_fromto = None,
                         geom_pos = Some pos, geom_euler = Some euler, geom_group = None\<rparr>],
                 body_namescope := (if name = [] then body_namescope body
                                    else body_namescope body @ [name])\<rparr>)"
  "\<not> name_accepted body name \<Longrightarrow> body_add body name pos euler = Inl ValueError"
  by (simp_all add: body_add_def Let_def)

lemma add_geometry_rejected:
  "\<not> name_accepted body name \<Longrightarrow>
     add_geometry quat_to_euler_list body name pose (Some g) = (Inl ValueError, body)"
  by (simp add: add_geometry_def body_add_simps)

text \<open>
  Claim C5: converting a mesh raises in both directions, and so does an unrecognised
  type. The spec's \<open>UnsupportedShapeError\<close> is Python's \<open>RuntimeError\<close> in the code. From
  SDFormat to MJCF a mesh is a geometry whose only shape is the mesh; a geometry
  with no shape at all raises the same error with the other message. Both are raised
  after \<open>body.add\<close> has accepted the name, and do not undo it: the body keeps the geom
  that was created for the shape, with a name and a pose and neither type nor size,
  while the call itself returns nothing. Where \<open>body.add\<close> rejects the name, the call
  ends there with its ValueError and the body unchanged, so a mesh never converts.
  From MJCF to SDFormat the type string \<open>mesh\<close>, like every type string outside the six
  supported ones, raises in \<open>mjcf_geom_to_sdf\<close> and so in the two converters that call
  it.
\<close>

theorem mesh_and_unknown_types_raise:
  "(box_shape g = None \<and> capsule_shape g = None \<and> cylinder_shape g = None
      \<and> ellipsoid_shape g = None \<and> plane_shape g = None \<and> sphere_shape g = None
      \<and> mesh_shape g = Some mesh \<and> name_accepted body name \<longrightarrow>
      fst (add_geometry quat_to_euler_list body name pose (Some g))
        = Inl (RuntimeError ''Meshes are not yet supported'')
      \<and> body_geoms (snd (add_geometry quat_to_euler_list body name pose (Some g)))
        = body_geoms body
          @ [\<lparr>geom_name = (if name = [] then None else Some name), geom_type = None,
              geom_size = None, geom_fromto = None,
              geom_pos = Some (vec3d_to_list (pose_pos pose)),
              geom_euler = Some (quat_to_euler_list (pose_rot pose)), geom_group = None\<rparr>])
   \<and> (box_shape g = None \<and> capsule_shape g = None \<and> cylinder_shape g = None
      \<and> ellipsoid_shape g = None \<and> plane_shape g = None \<and> sphere_shape g = None
      \<and> mesh_shape g = None \<and> name_accepted body name \<longrightarrow>
      fst (add_geometry quat_to_euler_list body name pose (Some g))
        = Inl (RuntimeError (''Encountered unsupported shape type ''
                              @ format_GeometryType (gtype g)))
      \<and> body_geoms (snd (add_geometry quat_to_euler_list body name pose (Some g)))
        = body_geoms body
          @ [\<lparr>geom_name = (if name = [] then None else Some name), geom_type = None,
              geom_size = None, geom_fromto = None,
              geom_pos = Some (vec3d_to_list (pose_pos pose)),
              geom_euler = Some (quat_to_euler_list (pose_rot pose)), geom_group = None\<rparr>])
   \<and> (\<not> name_accepted body name \<longrightarrow>
      add_geometry quat_to_euler_list body name pose (Some g) = (Inl ValueError, body))
   \<and> (box_shape g = None \<and> capsule_shape g = None \<and> cylinder_shape g = None
      \<and> ellipsoid_shape g = None \<and> plane_shape g = None \<and> sphere_shape g = None \<longrightarrow>
      (\<exists>e. fst (add_geometry quat_to_euler_list body name pose (Some g)) = Inl e))
   \<and> (geom_type geom = Some ''mesh'' \<longrightarrow>
      mjcf_geom_to_sdf geom = Inl (RuntimeError ''Encountered unsupported shape type mesh'')
      \<and> fst (mjcf_visual_to_sdf geom st)
          = Inl (RuntimeError ''Encountered unsupported shape type mesh'')
      \<and> fst (mjcf_collision_to_sdf geom st)
          = Inl (RuntimeError ''Encountered unsupported shape type mesh''))
   \<and> (geom_type geom = Some t \<and> t \<notin> set supported_types \<longrightarrow>
      mjcf_geom_to_sdf geom = Inl (RuntimeError (''Encountered unsupported shape type '' @ t))
      \<and> fst (mjcf_visual_to_sdf geom st)
          = Inl (RuntimeError (''Encountered unsupported shape type '' @ t))
      \<and> fst (mjcf_collision_to_sdf geom st)
          = Inl (RuntimeError (''Encountered unsupported shape type '' @ t)))"
proof -
  let ?r = "add_geometry quat_to_euler_list body name pose (Some g)"
  let ?left = "body_geoms body
          @ [\<lparr>geom_name = (if name = [] then None else Some name), geom_type = None,
              geom_size = None, geom_fromto = None,
              geom_pos = Some (vec3d_to_list (pose_pos pose)),
              geom_euler = Some (quat_to_euler_list (pose_rot pose)), geom_group = None\<rparr>]"
  have a: "box_shape g = None \<and> capsule_shape g = None \<and> cylinder_shape g = None
      \<and> ellipsoid_shape g = None \<and> plane_shape g = None \<and> sphere_shape g = None
      \<and> mesh_shape g = Some mesh \<and> name_accepted body name \<longrightarrow>
      fst ?r = Inl (RuntimeError ''Meshes are not yet supported'') \<and> body_geoms (snd ?r) = ?left"
    by (simp add: add_geometry_def body_add_simps)
  have b: "box_shape g = None \<and> capsule_shape g = None \<and> cylinder_shape g = None
      \<and> ellipsoid_shape g = None \<and> plane_shape g = None \<and> sphere_shape g = None
      \<and> mesh_shape g = None \<and> name_accepted body name \<longrightarrow>
      fst ?r = Inl (RuntimeError (''Encountered unsupported shape type ''
                              @ format_GeometryType (gtype g))) \<and> body_geoms (snd ?r) = ?left"
    by (simp add: add_geometry_def body_add_simps)
  have v: "\<not> name_accepted body name \<longrightarrow> ?r = (Inl ValueError, body)"
    by (simp add: add_geometry_rejected)
  have f: "box_shape g = None \<and> capsule_shape g = None \<and> cylinder_shape g = None
      \<and> ellipsoid_shape g = None \<and> plane_shape g = None \<and> sphere_shape g = None \<longrightarrow>
      (\<exists>e. fst ?r = Inl e)"
    by (cases "name_accepted body name"; cases "mesh_shape g")
       (simp_all add: add_geometry_def body_add_simps)
  have m: "geom_type geom = Some ''mesh'' \<Longrightarrow>
      mjcf_geom_to_sdf geom = Inl (RuntimeError ''Encountered unsupported shape type mesh'')"
    by (simp add: mjcf_geom_to_sdf_def format_opt_def)
  have u: "geom_type geom = Some t \<and> t \<notin> set supported_types \<Longrightarrow>
      mjcf_geom_to_sdf geom = Inl (RuntimeError (''Encountered unsupported shape type '' @ t))"
    by (auto simp: mjcf_geom_to_sdf_def format_opt_def supported_types_def)
  have w: "(geom_type geom = Some ''mesh'' \<longrightarrow>
      mjcf_geom_to_sdf geom = Inl (RuntimeError ''Encountered unsupported shape type mesh'')
      \<and> fst (mjcf_visual_to_sdf geom st)
          = Inl (RuntimeError ''Encountered unsupported shape type mesh'')
      \<and> fst (mjcf_collision_to_sdf geom st)
          = Inl (RuntimeError ''Encountered unsupported shape type mesh''))
   \<and> (geom_type geom = Some t \<and> t \<notin> set supported_types \<longrightarrow>
      mjcf_geom_to_sdf geom = Inl (RuntimeError (''Encountered unsupported shape type '' @ t))
      \<and> fst (mjcf_visual_to_sdf geom st)
          = Inl (RuntimeError (''Encountered unsupported shape type '' @ t))
      \<and> fst (mjcf_collision_to_sdf geom st)
          = Inl (RuntimeError (''Encountered unsupported shape type '' @ t)))"
    using m u by (simp add: visual_result collision_result)
  from a b v f w show ?thesis by blast
qed

theorem mesh_and_unknown_types_raise_witness:
  "name_accepted \<lparr>body_geoms = [], body_namescope = [''v0'']\<rparr> ''v1''
   \<and> add_geometry (\<lambda>q. [0, 0, 0]) \<lparr>body_geoms = [], body_namescope = [''v0'']\<rparr> ''v1''
         \<lparr>pose_pos = (0, 0, 0), pose_rot = ()\<rparr>
         (Some (Geometry\<lparr>mesh_shape := Some \<lparr>mesh_uri = ''duck.dae''\<rparr>, gtype := MESH\<rparr>))
     = (Inl (RuntimeError ''Meshes are not yet supported''),
        \<lparr>body_geoms = [\<lparr>geom_name = Some ''v1'', geom_type = None, geom_size = None,
                         geom_fromto = None, geom_pos = Some [0, 0, 0],
                         geom_euler = Some [0, 0, 0], geom_group = None\<rparr>],
         body_namescope = [''v0'', ''v1'']\<rparr>)
   \<and> fst (add_geometry (\<lambda>q. [0, 0, 0]) \<lparr>body_geoms = [], body_namescope = [''v0'']\<rparr> ''v1''
         \<lparr>pose_pos = (0, 0, 0), pose_rot = ()\<rparr> (Some Geometry))
     = Inl (RuntimeError ''Encountered unsupported shape type GeometryType.EMPTY'')
   \<and> \<not> name_accepted \<lparr>body_geoms = [], body_namescope = [''v0'']\<rparr> ''v0''
   \<and> add_geometry (\<lambda>q. [0, 0, 0]) \<lparr>body_geoms = [], body_namescope = [''v0'']\<rparr> ''v0''
         \<lparr>pose_pos = (0, 0, 0), pose_rot = ()\<rparr>
         (Some (Geometry\<lparr>mesh_shape := Some \<lparr>mesh_uri = ''duck.dae''\<rparr>, gtype := MESH\<rparr>))
     = (Inl ValueError, \<lparr>body_geoms = [], body_namescope = [''v0'']\<rparr>)
   \<and> mjcf_geom_to_sdf \<lparr>geom_name = None, geom_type = Some ''mesh'', geom_size = None,
        geom_fromto = None, geom_pos = None, geom_euler = None, geom_group = None\<rparr>
     = Inl (RuntimeError ''Encountered unsupported shape type mesh'')
   \<and> mjcf_geom_to_sdf \<lparr>geom_name = None, geom_type = Some ''hfield'', geom_size = None,
        geom_fromto = None, geom_pos = None, geom_euler = None, geom_group = None\<rparr>
     = Inl (RuntimeError ''Encountered unsupported shape type hfield'')"
proof -
  let ?gm = "Geometry\<lparr>mesh_shape := Some \<lparr>mesh_uri = ''duck.dae''\<rparr>, gtype := MESH\<rparr>"
  let ?body = "\<lparr>body_geoms = [], body_namescope = [''v0'']\<rparr>"
  let ?pose = "\<lparr>pose_pos = (0, 0, 0), pose_rot = ()\<rparr>"
  let ?m = "\<lparr>geom_name = None, geom_type = Some ''mesh'', geom_size = None,
        geom_fromto = None, geom_pos = None, geom_euler = None, geom_group = None\<rparr>"
  let ?h = "\<lparr>geom_name = None, geom_type = Some ''hfield'', geom_size = None,
        geom_fromto = None, geom_pos = None, geom_euler = None, geom_group = None\<rparr>"
  have h: "''hfield'' \<notin> set supported_types" by (simp add: supported_types_def)
  have n1: "name_accepted ?body ''v1''" by (simp add: name_accepted_def)
  have n0: "\<not> name_accepted ?body ''v0''" by (simp add: name_accepted_def)
  have ns: "body_namescope (snd (add_geometry (\<lambda>q. [0, 0, 0]) ?body ''v1'' ?pose (Some ?gm)))
              = [''v0'', ''v1'']"
    using n1 by (simp add: add_geometry_def body_add_simps Geometry_def)
  have t1: "fst (add_geometry (\<lambda>q. [0, 0, 0]) ?body ''v1'' ?pose (Some ?gm))
              = Inl (RuntimeError ''Meshes are not yet supported'')
           \<and> body_geoms (snd (add_geometry (\<lambda>q. [0, 0, 0]) ?body ''v1'' ?pose (Some ?gm)))
              = [\<lparr>geom_name = Some ''v1'', geom_type = None, geom_size = None,
                         geom_fromto = None, geom_pos = Some [0, 0, 0],
                         geom_euler = Some [0, 0, 0], geom_group = None\<rparr>]"
    using n1 mesh_and_unknown_types_raise [where g = ?gm and mesh = "\<lparr>mesh_uri = ''duck.dae''\<rparr>"
          and quat_to_euler_list = "\<lambda>q. [0, 0, 0]" and body = ?body and name = "''v1''"
          and pose = ?pose and geom = ?m]
    by (simp add: Geometry_def vec3d_to_list_def)
  have t2: "fst (add_geometry (\<lambda>q. [0, 0, 0]) ?body ''v1'' ?pose (Some Geometry))
              = Inl (RuntimeError ''Encountered unsupported shape type GeometryType.EMPTY'')"
    using n1 mesh_and_unknown_types_raise [where g = Geometry
          and quat_to_euler_list = "\<lambda>q. [0, 0, 0]" and body = ?body and name = "''v1''"
          and pose = ?pose and geom = ?m]
    by (simp add: Geometry_def)
  have t3: "add_geometry (\<lambda>q. [0, 0, 0]) ?body ''v0'' ?pose (Some ?gm) = (Inl ValueError, ?body)"
    using n0 mesh_and_unknown_types_raise [where g = ?gm
          and quat_to_euler_list = "\<lambda>q. [0, 0, 0]" and body = ?body and name = "''v0''"
          and pose = ?pose and geom = ?m]
    by blast
  have t4: "mjcf_geom_to_sdf ?m = Inl (RuntimeError ''Encountered unsupported shape type mesh'')
          \<and> mjcf_geom_to_sdf ?h = Inl (RuntimeError ''Encountered unsupported shape type hfield'')"
    using h
      mesh_and_unknown_types_raise [where g = ?gm and mesh = "\<lparr>mesh_uri = ''duck.dae''\<rparr>"
          and quat_to_euler_list = "\<lambda>q. [0, 0, 0]" and body = ?body and name = "''v1''"
          and pose = ?pose and geom = ?m and st = module_loaded and t = "''hfield''"]
      mesh_and_unknown_types_raise [where g = ?gm and mesh = "\<lparr>mesh_uri = ''duck.dae''\<rparr>"
          and quat_to_euler_list = "\<lambda>q. [0, 0, 0]" and body = ?body and name = "''v1''"
          and pose = ?pose and geom = ?h and st = module_loaded and t = "''hfield''"]
    by simp
  have p: "add_geometry (\<lambda>q. [0, 0, 0]) ?body ''v1'' ?pose (Some ?gm)
     = (Inl (RuntimeError ''Meshes are not yet supported''),
        \<lparr>body_geoms = [\<lparr>geom_name = Some ''v1'', geom_type = None, geom_size = None,
                         geom_fromto = None, geom_pos = Some [0, 0, 0],
                         geom_euler = Some [0, 0, 0], geom_group = None\<rparr>],
         body_namescope = [''v0'', ''v1'']\<rparr>)"
    using t1 ns by (cases "add_geometry (\<lambda>q. [0, 0, 0]) ?body ''v1'' ?pose (Some ?gm)") auto
  from n1 n0 p t2 t3 t4 show ?thesis by blast
qed

subsection \<open>Boxes\<close>

text \<open>
  Claim C2: from SDFormat to MJCF the size of a box is divided by 2, entry by entry,
  and from MJCF to SDFormat it is multiplied by 2; converting a box one way and back
  returns the size it had. Sizes are real numbers here, so the equality is exact. The
  conversion to MJCF is one into a body, under a name that \<open>body.add\<close> accepts; under
  a name that it rejects nothing is converted.
\<close>

theorem box_round_trip:
  "(box_shape g = Some \<lparr>box_size = (x, y, z)\<rparr> \<and> name_accepted body name \<longrightarrow>
      (\<exists>geom body'.
          add_geometry quat_to_euler_list body name pose (Some g) = (Inr (Some geom), body')
          \<and> geom_type geom = Some ''box''
          \<and> geom_size geom = Some [x / 2, y / 2, z / 2]
          \<and> body_geoms body' = body_geoms body @ [geom]
          \<and> (\<exists>g'. mjcf_geom_to_sdf geom = Inr (Some g')
                 \<and> gtype g' = BOX \<and> box_shape g' = Some \<lparr>box_size = (x, y, z)\<rparr>)))
   \<and> (geom_type geom = Some ''box'' \<and> geom_size geom = Some [a, b, c]
        \<and> name_accepted body name \<longrightarrow>
      (\<exists>g'. mjcf_geom_to_sdf geom = Inr (Some g')
          \<and> box_shape g' = Some \<lparr>box_size = (a * 2, b * 2, c * 2)\<rparr>
          \<and> (\<exists>geom' body'.
                add_geometry quat_to_euler_list body name pose (Some g')
                  = (Inr (Some geom'), body')
                \<and> geom_type geom' = Some ''box''
                \<and> geom_size geom' = Some [a, b, c]
                \<and> body_geoms body' = body_geoms body @ [geom'])))
   \<and> (\<not> name_accepted body name \<longrightarrow>
        add_geometry quat_to_euler_list body name pose (Some g) = (Inl ValueError, body))"
proof -
  have ab: "box_shape g = Some \<lparr>box_size = (x, y, z)\<rparr> \<and> name_accepted body name \<longrightarrow>
      (\<exists>geom body'.
          add_geometry quat_to_euler_list body name pose (Some g) = (Inr (Some geom), body')
          \<and> geom_type geom = Some ''box''
          \<and> geom_size geom = Some [x / 2, y / 2, z / 2]
          \<and> body_geoms body' = body_geoms body @ [geom]
          \<and> (\<exists>g'. mjcf_geom_to_sdf geom = Inr (Some g')
                 \<and> gtype g' = BOX \<and> box_shape g' = Some \<lparr>box_size = (x, y, z)\<rparr>))"
    by (simp add: add_geometry_def body_add_simps Let_def vec3_div_def vec3d_to_list_def
          mjcf_geom_to_sdf_def list_to_vec3d_simps vec3_scale_def)
  have ba: "geom_type geom = Some ''box'' \<and> geom_size geom = Some [a, b, c]
        \<and> name_accepted body name \<longrightarrow>
      (\<exists>g'. mjcf_geom_to_sdf geom = Inr (Some g')
          \<and> box_shape g' = Some \<lparr>box_size = (a * 2, b * 2, c * 2)\<rparr>
          \<and> (\<exists>geom' body'.
                add_geometry quat_to_euler_list body name pose (Some g')
                  = (Inr (Some geom'), body')
                \<and> geom_type geom' = Some ''box''
                \<and> geom_size geom' = Some [a, b, c]
                \<and> body_geoms body' = body_geoms body @ [geom']))"
    by (simp add: add_geometry_def body_add_simps Let_def vec3_div_def vec3d_to_list_def
          mjcf_geom_to_sdf_def list_to_vec3d_simps vec3_scale_def Geometry_def)
  have v: "\<not> name_accepted body name \<longrightarrow>
        add_geometry quat_to_euler_list body name pose (Some g) = (Inl ValueError, body)"
    by (simp add: add_geometry_rejected)
  from ab ba v show ?thesis by blast
qed

theorem box_round_trip_witness:
  "name_accepted \<lparr>body_geoms = [], body_namescope = []\<rparr> ''c1''
   \<and> (\<exists>geom body'.
      add_geometry (\<lambda>q. [90, 60, 45]) \<lparr>body_geoms = [], body_namescope = []\<rparr> ''c1''
         \<lparr>pose_pos = (1, 2, 3), pose_rot = ()\<rparr>
         (Some (Geometry\<lparr>box_shape := Some \<lparr>box_size = (2, 2, 2)\<rparr>, gtype := BOX\<rparr>))
        = (Inr (Some geom), body')
      \<and> geom_size geom = Some [2 / 2, 2 / 2, 2 / 2]
      \<and> (\<exists>g'. mjcf_geom_to_sdf geom = Inr (Some g')
             \<and> box_shape g' = Some \<lparr>box_size = (2, 2, 2)\<rparr>))
   \<and> (\<exists>g'. mjcf_geom_to_sdf
          \<lparr>geom_name = None, geom_type = Some ''box'', geom_size = Some [1, 2, 3],
           geom_fromto = None, geom_pos = None, geom_euler = None, geom_group = None\<rparr>
          = Inr (Some g')
      \<and> box_shape g' = Some \<lparr>box_size = (1 * 2, 2 * 2, 3 * 2)\<rparr>
      \<and> (\<exists>geom' body'.
            add_geometry (\<lambda>q. [90, 60, 45]) \<lparr>body_geoms = [], body_namescope = []\<rparr> ''c1''
               \<lparr>pose_pos = (1, 2, 3), pose_rot = ()\<rparr> (Some g') = (Inr (Some geom'), body')
            \<and> geom_size geom' = Some [1, 2, 3]))
   \<and> \<not> name_accepted \<lparr>body_geoms = [], body_namescope = [''c1'']\<rparr> ''c1''
   \<and> add_geometry (\<lambda>q. [90, 60, 45]) \<lparr>body_geoms = [], body_namescope = [''c1'']\<rparr> ''c1''
         \<lparr>pose_pos = (1, 2, 3), pose_rot = ()\<rparr>
         (Some (Geometry\<lparr>box_shape := Some \<lparr>box_size = (2, 2, 2)\<rparr>, gtype := BOX\<rparr>))
        = (Inl ValueError, \<lparr>body_geoms = [], body_namescope = [''c1'']\<rparr>)"
proof -
  let ?g = "Geometry\<lparr>box_shape := Some \<lparr>box_size = (2, 2, 2)\<rparr>, gtype := BOX\<rparr>"
  let ?geom = "\<lparr>geom_name = None, geom_type = Some ''box'', geom_size = Some [1, 2, 3],
           geom_fromto = None, geom_pos = None, geom_euler = None, geom_group = None\<rparr>"
  let ?body = "\<lparr>body_geoms = [], body_namescope = []\<rparr>"
  let ?used = "\<lparr>body_geoms = [], body_namescope = [''c1'']\<rparr>"
  let ?pose = "\<lparr>pose_pos = (1, 2, 3), pose_rot = ()\<rparr>"
  have n: "name_accepted ?body ''c1''" by (simp add: name_accepted_def)
  have r: "\<not> name_accepted ?used ''c1''" by (simp add: name_accepted_def)
  have h1: "box_shape ?g = Some \<lparr>box_size = (2, 2, 2)\<rparr>" by (simp add: Geometry_def)
  have h2: "geom_type ?geom = Some ''box'' \<and> geom_size ?geom = Some [1, 2, 3]" by simp
  note inst = box_round_trip [where g = ?g and x = 2 and y = 2 and z = 2
      and quat_to_euler_list = "\<lambda>q. [90, 60, 45]" and body = ?body and name = "''c1''"
      and pose = ?pose and geom = ?geom and a = 1 and b = 2 and c = 3]
  have t: "(\<exists>geom body'.
      add_geometry (\<lambda>q. [90, 60, 45]) ?body ''c1'' ?pose (Some ?g) = (Inr (Some geom), body')
      \<and> geom_size geom = Some [2 / 2, 2 / 2, 2 / 2]
      \<and> (\<exists>g'. mjcf_geom_to_sdf geom = Inr (Some g')
             \<and> box_shape g' = Some \<lparr>box_size = (2, 2, 2)\<rparr>))"
    using h1 n inst by blast
  have u: "(\<exists>g'. mjcf_geom_to_sdf ?geom = Inr (Some g')
      \<and> box_shape g' = Some \<lparr>box_size = (1 * 2, 2 * 2, 3 * 2)\<rparr>
      \<and> (\<exists>geom' body'.
            add_geometry (\<lambda>q. [90, 60, 45]) ?body ''c1'' ?pose (Some g') = (Inr (Some geom'), body')
            \<and> geom_size geom' = Some [1, 2, 3]))"
    using h2 n inst by blast
  have v: "add_geometry (\<lambda>q. [90, 60, 45]) ?used ''c1'' ?pose (Some ?g) = (Inl ValueError, ?used)"
    using r box_round_trip [where g = ?g and quat_to_euler_list = "\<lambda>q. [90, 60, 45]" and body = ?used
      and name = "''c1''" and pose = ?pose]
    by blast
  from n r t u v show ?thesis by blast
qed

subsection \<open>A geometry that is \<open>None\<close>\<close>

text \<open>
  Claim C4 says that an attachment with a \<open>None\<close> geometry is left out without an
  exception, in both directions. \<open>add_geometry\<close> does so: it adds no geom and returns
  \<open>None\<close>. But \<open>add_collision\<close> then assigns \<open>geom.group\<close> on that \<open>None\<close>, which raises
  AttributeError.
\<close>

theorem add_collision_raises_on_None_geometry:
  "add_geometry (\<lambda>q. [0, 0, 0]) \<lparr>body_geoms = [], body_namescope = []\<rparr> ''c1''
      \<lparr>pose_pos = (0, 0, 0), pose_rot = ()\<rparr> None
     = (Inr None, \<lparr>body_geoms = [], body_namescope = []\<rparr>)
   \<and> add_collision (\<lambda>q. [0, 0, 0]) \<lparr>body_geoms = [], body_namescope = []\<rparr>
      \<lparr>col_semantic_pose = (), col_name = ''c1'', col_geometry = None\<rparr>
      (\<lambda>sem_pose. Inr \<lparr>pose_pos = (0, 0, 0), pose_rot = ()\<rparr>)
     = (Inl AttributeError, \<lparr>body_geoms = [], body_namescope = []\<rparr>)"
  by (simp add: add_collision_def add_geometry_def)

lemma add_collision_None_geometry:
  "pose_resolver (col_semantic_pose col) = Inr pose \<Longrightarrow> col_geometry col = None \<Longrightarrow>
     add_collision quat_to_euler_list body col pose_resolver = (Inl AttributeError, body)"
  by (simp add: add_collision_def add_geometry_def)

subsection \<open>The walk over the body tree\<close>

lemma add_joints_fields:
  "model_joints (add_joints c js p n m) =
     model_joints m
       @ List.map_filter (\<lambda>j. mjcf_joint_to_sdf c (apply_modifiers_to_element c j) p n) js"
  "model_links (add_joints c js p n m) = model_links m"
  "model_name (add_joints c js p n m) = model_name m"
  "static (add_joints c js p n m) = static m"
  unfolding add_joints_def
  by (induction js arbitrary: m; simp add: List.map_filter_simps split: option.splits)+

lemma iterate_bodies_joints:
  "model_joints (iterate_bodies c bodies model parent) =
     model_joints model
       @ concat (map (\<lambda>(body, parent). declared_joints c body parent
                                          @ synthesized_joints c body parent)
                   (bodies_with_parent bodies parent))"
proof (induction c bodies model parent rule: iterate_bodies.induct)
  case (1 c model body_parent_name)
  show ?case by simp
next
  case (2 c name geom joint freejoint camera light children rest model body_parent_name)
  show ?case
    by (simp add: Let_def 2 add_joints_fields declared_joints_def synthesized_joints_def)
qed

lemma iterate_bodies_name_static:
  "model_name (iterate_bodies c bodies model parent) = model_name model
   \<and> static (iterate_bodies c bodies model parent) = static model"
proof (induction c bodies model parent rule: iterate_bodies.induct)
  case (1 c model body_parent_name)
  show ?case by simp
next
  case (2 c name geom joint freejoint camera light children rest model body_parent_name)
  show ?case
    by (simp add: Let_def 2 add_joints_fields)
qed

lemma world_options_fields:
  "world_models (fst (world_options opt w)) = world_models w"
  "world_plugins (fst (world_options opt w)) = world_plugins w"
  by (simp_all add: world_options_def raise_bind_def split: option.splits sum.splits)

lemma world_options_None: "world_options None w = (w, None)"
  by (simp add: world_options_def)

lemma world_options_error: "snd (world_options opt w) = snd (world_options opt w')"
  by (simp add: world_options_def raise_bind_def split: option.splits sum.splits)

lemma add_lights_fields:
  "world_models (foldl (\<lambda>world light. world\<lparr>world_lights := world_lights world @ [f light]\<rparr>) w ls)
     = world_models w"
  "world_plugins (foldl (\<lambda>world light. world\<lparr>world_lights := world_lights world @ [f light]\<rparr>) w ls)
     = world_plugins w"
  by (induction ls arbitrary: w; simp)+

lemma add_plugins_fields:
  "world_plugins (foldl (\<lambda>world (key, value).
       world\<lparr>world_plugins := world_plugins world @ [(key, value)]\<rparr>) w ps) = world_plugins w @ ps"
  "world_models (foldl (\<lambda>world (key, value).
       world\<lparr>world_plugins := world_plugins world @ [(key, value)]\<rparr>) w ps) = world_models w"
  by (induction ps arbitrary: w; simp add: case_prod_beta)+


lemma world_options_result:
  "world_options opt w = (w', e) \<Longrightarrow>
     world_models w' = world_models w \<and> world_plugins w' = world_plugins w
     \<and> e = snd (world_options opt w0)"
  using world_options_fields [of opt w] world_options_error [of opt w w0] by simp

lemma mjcf_worldbody_to_sdf_result:
  fixes c :: "('e, 'lt, 'lk, 'sn, 'jt) converters"
    and mjcf_root :: "'e mjcf_root" and world :: "('lt, 'lk, 'sn, 'jt) sdf_world"
    and export_world_plugins :: bool
  defines "r \<equiv> mjcf_worldbody_to_sdf c mjcf_root world export_world_plugins"
  shows "snd r = snd (world_options (root_option mjcf_root) world)"
    and "world_models (fst r) =
           world_models world
           @ [\<lparr>model_name = find_unique_name c (root_worldbody mjcf_root) ''geom'' ''static'',
                static = True,
                model_links = [add_sensors c (body_camera (root_worldbody mjcf_root))
                                 (mjcf_body_to_sdf c (root_worldbody mjcf_root) None)],
                model_joints = []\<rparr>]
           @ (if snd r = None
              then [iterate_bodies c (body_body (root_worldbody mjcf_root))
                      (Model\<lparr>model_name := (case root_model mjcf_root of
                                                 Some n \<Rightarrow> n | None \<Rightarrow> ''model'')\<rparr>) None]
              else [])"
    and "world_plugins (fst r) =
           world_plugins world @ (if snd r = None \<and> export_world_plugins then plugins else [])"
  unfolding r_def mjcf_worldbody_to_sdf_def Let_def
  by (auto simp: add_lights_fields add_plugins_fields Model_def
        split: prod.splits option.splits dest!: world_options_result [where ?w0.0 = world])

text \<open>
  Claim C1: the joints that the walk adds to the model are, for each body of the tree
  in pre-order, its declared joints as the joint converter maps them with the name of
  the immediate parent and the body's own name, followed by exactly one joint made by
  \<open>add_fixed_joint\<close> from the immediate parent to the body when the body declares zero
  joints and has no free joint, and by no such joint otherwise. The same holds for
  the articulated model of a whole conversion.
\<close>

theorem synthesized_fixed_joints:
  fixes c :: "('e, 'lt, 'lk, 'sn, 'jt) converters"
    and mjcf_root :: "'e mjcf_root" and world :: "('lt, 'lk, 'sn, 'jt) sdf_world"
    and export_world_plugins :: bool
  defines "r \<equiv> mjcf_worldbody_to_sdf c mjcf_root world export_world_plugins"
  shows
  "model_joints (iterate_bodies c bodies model body_parent_name) =
     model_joints model
       @ concat (map (\<lambda>(body, parent). declared_joints c body parent
                                          @ synthesized_joints c body parent)
                   (bodies_with_parent bodies body_parent_name))
   \<and> (body_joint body = [] \<and> body_freejoint body = None \<longrightarrow>
        synthesized_joints c body parent = [add_fixed_joint c parent (body_name body)])
   \<and> (body_joint body \<noteq> [] \<or> body_freejoint body \<noteq> None \<longrightarrow>
        synthesized_joints c body parent = [])
   \<and> (snd r = None \<longrightarrow>
        model_joints (last (world_models (fst r))) =
          concat (map (\<lambda>(body, parent). declared_joints c body parent
                                           @ synthesized_joints c body parent)
                    (bodies_with_parent (body_body (root_worldbody mjcf_root)) None)))"
proof -
  have "snd r = None \<longrightarrow>
        model_joints (last (world_models (fst r))) =
          concat (map (\<lambda>(body, parent). declared_joints c body parent
                                           @ synthesized_joints c body parent)
                    (bodies_with_parent (body_body (root_worldbody mjcf_root)) None))"
    unfolding r_def
    by (simp add: mjcf_worldbody_to_sdf_result(2) iterate_bodies_joints Model_def)
  then show ?thesis
    by (simp add: iterate_bodies_joints synthesized_joints_def)
qed

theorem synthesized_fixed_joints_witness:
  "model_joints (iterate_bodies example_converters (body_body (root_worldbody example_root))
                   Model None)
     = [(''fixed'', None, Some ''base''), (''hinge'', Some ''base'', Some ''arm'')]
   \<and> synthesized_joints example_converters
        (Body (Some ''base'') [] [] None [] []
           [Body (Some ''arm'') [] [''hinge''] None [] [] []]) None
     = [(''fixed'', None, Some ''base'')]
   \<and> synthesized_joints example_converters
        (Body (Some ''arm'') [] [''hinge''] None [] [] []) (Some ''base'') = []
   \<and> model_joints (last (world_models
        (fst (mjcf_worldbody_to_sdf example_converters example_root example_world False))))
     = [(''fixed'', None, Some ''base''), (''hinge'', Some ''base'', Some ''arm'')]"
proof -
  have h: "snd (mjcf_worldbody_to_sdf example_converters example_root example_world False) = None"
    by (simp add: mjcf_worldbody_to_sdf_result(1) example_root_def world_options_None)
  have e: "concat (map (\<lambda>(body, parent). declared_joints example_converters body parent
                                           @ synthesized_joints example_converters body parent)
                    (bodies_with_parent (body_body (root_worldbody example_root)) None))
           = [(''fixed'', None, Some ''base''), (''hinge'', Some ''base'', Some ''arm'')]"
    by (simp add: example_root_def example_converters_def declared_joints_def
          synthesized_joints_def List.map_filter_simps)
  from h e
    synthesized_fixed_joints [of example_converters "body_body (root_worldbody example_root)" Model None
           "Body (Some ''base'') [] [] None [] []
              [Body (Some ''arm'') [] [''hinge''] None [] [] []]" None
           example_root example_world False]
    synthesized_fixed_joints [of example_converters "[]" Model None
           "Body (Some ''arm'') [] [''hinge''] None [] [] []" "Some ''base''"
           example_root example_world False]
  show ?thesis by (simp add: Model_def example_converters_def)
qed

text \<open>
  Claim C7: the world body is emitted as a model of its own, marked static and added
  to the world before the articulated model, which is another model, not static,
  named after the root's \<open>model\<close> attribute or \<open>model\<close> when there is none. The static
  model is added even when the options block raises; the conversion then ends there.
  A root without options converts to the end.
\<close>

theorem world_body_is_separate_static_model:
  fixes c :: "('e, 'lt, 'lk, 'sn, 'jt) converters"
    and mjcf_root :: "'e mjcf_root" and world :: "('lt, 'lk, 'sn, 'jt) sdf_world"
    and export_world_plugins :: bool
  defines "r \<equiv> mjcf_worldbody_to_sdf c mjcf_root world export_world_plugins"
    and "model_static \<equiv>
           \<lparr>model_name = find_unique_name c (root_worldbody mjcf_root) ''geom'' ''static'',
            static = True,
            model_links = [add_sensors c (body_camera (root_worldbody mjcf_root))
                             (mjcf_body_to_sdf c (root_worldbody mjcf_root) None)],
            model_joints = []\<rparr>"
    and "model \<equiv> iterate_bodies c (body_body (root_worldbody mjcf_root))
                    (Model\<lparr>model_name := (case root_model mjcf_root of
                                               Some n \<Rightarrow> n | None \<Rightarrow> ''model'')\<rparr>) None"
  shows
  "(snd r = None \<longrightarrow> world_models (fst r) = world_models world @ [model_static, model])
   \<and> (snd r \<noteq> None \<longrightarrow> world_models (fst r) = world_models world @ [model_static])
   \<and> static model_static \<and> \<not> static model \<and> model \<noteq> model_static
   \<and> (root_model mjcf_root = Some n \<longrightarrow> model_name model = n)
   \<and> (root_model mjcf_root = None \<longrightarrow> model_name model = ''model'')
   \<and> (root_option mjcf_root = None \<longrightarrow> snd r = None)"
proof -
  have m: "world_models (fst r) =
      world_models world @ [model_static] @ (if snd r = None then [model] else [])"
    unfolding r_def model_static_def model_def by (rule mjcf_worldbody_to_sdf_result(2))
  have s: "static model_static" by (simp add: model_static_def)
  have t: "\<not> static model"
    unfolding model_def by (simp add: iterate_bodies_name_static Model_def)
  have n: "model_name model = (case root_model mjcf_root of Some n \<Rightarrow> n | None \<Rightarrow> ''model'')"
    unfolding model_def by (simp add: iterate_bodies_name_static)
  have o: "root_option mjcf_root = None \<longrightarrow> snd r = None"
    unfolding r_def by (simp add: mjcf_worldbody_to_sdf_result(1) world_options_None)
  from s t have d: "model \<noteq> model_static" by auto
  from m s t d n o show ?thesis by simp
qed

theorem world_body_is_separate_static_model_witness:
  "world_models (fst (mjcf_worldbody_to_sdf example_converters example_root example_world False))
     = [\<lparr>model_name = ''static'', static = True,
          model_links = [\<lparr>link_body = None, link_sensors = []\<rparr>], model_joints = []\<rparr>,
        \<lparr>model_name = ''model'', static = False,
          model_links = [\<lparr>link_body = Some ''base'', link_sensors = []\<rparr>,
                         \<lparr>link_body = Some ''arm'', link_sensors = []\<rparr>,
                         \<lparr>link_body = Some ''ball'', link_sensors = []\<rparr>],
          model_joints = [(''fixed'', None, Some ''base''),
                          (''hinge'', Some ''base'', Some ''arm'')]\<rparr>]
   \<and> snd (mjcf_worldbody_to_sdf example_converters example_root example_world False) = None"
proof -
  have h: "root_option example_root = None \<and> root_model example_root = None"
    by (simp add: example_root_def)
  have e: "iterate_bodies example_converters (body_body (root_worldbody example_root))
             (Model\<lparr>model_name := ''model''\<rparr>) None
           = \<lparr>model_name = ''model'', static = False,
          model_links = [\<lparr>link_body = Some ''base'', link_sensors = []\<rparr>,
                         \<lparr>link_body = Some ''arm'', link_sensors = []\<rparr>,
                         \<lparr>link_body = Some ''ball'', link_sensors = []\<rparr>],
          model_joints = [(''fixed'', None, Some ''base''),
                          (''hinge'', Some ''base'', Some ''arm'')]\<rparr>"
    by (simp add: example_root_def example_converters_def Model_def add_joints_def
          add_sensors_def)
  have w: "world_models example_world = []" by (simp add: example_world_def)
  have f: "find_unique_name example_converters (root_worldbody example_root) ''geom'' ''static''
             = ''static''
           \<and> add_sensors example_converters (body_camera (root_worldbody example_root))
               (mjcf_body_to_sdf example_converters (root_worldbody example_root) None)
             = \<lparr>link_body = None, link_sensors = []\<rparr>"
    by (simp add: example_root_def example_converters_def add_sensors_def)
  from h world_body_is_separate_static_model [of example_converters example_root example_world False]
  show ?thesis by (simp add: e w f)
qed

text \<open>
  Claim C9: with the export flag set, a conversion adds exactly the four plugin
  declarations of the table to the world, in the table's order; without it, it adds
  none. (A conversion that the options block ends with an exception has not reached
  the plugins.)
\<close>

theorem world_plugins_exported:
  fixes c :: "('e, 'lt, 'lk, 'sn, 'jt) converters"
    and mjcf_root :: "'e mjcf_root" and world :: "('lt, 'lk, 'sn, 'jt) sdf_world"
  defines "exported \<equiv> mjcf_worldbody_to_sdf c mjcf_root world True"
    and "plain \<equiv> mjcf_worldbody_to_sdf c mjcf_root world False"
  shows
  "(snd exported = None \<longrightarrow>
      world_plugins (fst exported) =
        world_plugins world
        @ [(''ignition-gazebo-physics-system'', ''ignition::gazebo::systems::Physics''),
           (''ignition-gazebo-sensors-system'', ''ignition::gazebo::systems::Sensors''),
           (''ignition-gazebo-user-commands-system'',
            ''ignition::gazebo::systems::UserCommands''),
           (''ignition-gazebo-scene-broadcaster-system'',
            ''ignition::gazebo::systems::SceneBroadcaster'')])
   \<and> (snd exported \<noteq> None \<longrightarrow> world_plugins (fst exported) = world_plugins world)
   \<and> world_plugins (fst plain) = world_plugins world
   \<and> (root_option mjcf_root = None \<longrightarrow> snd exported = None \<and> snd plain = None)"
  unfolding exported_def plain_def
  by (simp add: mjcf_worldbody_to_sdf_result(1,3) plugins_def world_options_None)

theorem world_plugins_exported_witness:
  "world_plugins (fst (mjcf_worldbody_to_sdf example_converters example_root example_world True))
     = [(''ignition-gazebo-physics-system'', ''ignition::gazebo::systems::Physics''),
        (''ignition-gazebo-sensors-system'', ''ignition::gazebo::systems::Sensors''),
        (''ignition-gazebo-user-commands-system'', ''ignition::gazebo::systems::UserCommands''),
        (''ignition-gazebo-scene-broadcaster-system'',
         ''ignition::gazebo::systems::SceneBroadcaster'')]
   \<and> world_plugins (fst (mjcf_worldbody_to_sdf example_converters example_root example_world False))
     = []"
proof -
  have h: "root_option example_root = None" by (simp add: example_root_def)
  have w: "world_plugins example_world = []" by (simp add: example_world_def)
  from h world_plugins_exported [of example_converters example_root example_world]
  show ?thesis by (simp add: w)
qed

end
